theory Spec2Isabelle
  imports Complex_Main "HOL-Library.Sublist"
begin

section \<open>JavaScript values\<close>

text \<open>
  The handlers of \<^verbatim>\<open>convex/http.ts\<close> work on decoded JSON: the result of
  \<^verbatim>\<open>request.json()\<close> and of \<^verbatim>\<open>JSON.parse\<close>. A value is one of JavaScript's
  primitives, an array or a plain object. An object is the list of its own properties; a
  property read takes the first binding of the key (a decoded object has each key once).
  \<^verbatim>\<open>Undefined\<close> is what a read of an absent property gives.

  A number is an IEEE double, kept here as its mathematical value: \<^verbatim>\<open>NaN\<close>, the two
  infinities, or a finite rational (the two zeros are one value). A string is the list of
  the bytes of its UTF-8 encoding.
\<close>

datatype jsnum = NaN | PosInfinity | NegInfinity | Finite rat

datatype jsval =
    Undefined
  | Null
  | Bool bool
  | Num jsnum
  | Str string
  | Arr "jsval list"
  | Obj "(string \<times> jsval) list"

datatype jstype = TUndefined | TObject | TBoolean | TNumber | TString

text \<open>\<^verbatim>\<open>typeof v\<close>: \<^verbatim>\<open>null\<close> and arrays are of type \<^verbatim>\<open>"object"\<close>.\<close>

fun typeof :: "jsval \<Rightarrow> jstype" where
  "typeof Undefined = TUndefined"
| "typeof Null = TObject"
| "typeof (Bool b) = TBoolean"
| "typeof (Num n) = TNumber"
| "typeof (Str s) = TString"
| "typeof (Arr xs) = TObject"
| "typeof (Obj kvs) = TObject"

text \<open>\<^verbatim>\<open>Array.isArray(v)\<close>.\<close>

fun isArray :: "jsval \<Rightarrow> bool" where
  "isArray (Arr xs) = True"
| "isArray v = False"

text \<open>\<^verbatim>\<open>Number.isNaN(v)\<close>.\<close>

fun isNaN :: "jsval \<Rightarrow> bool" where
  "isNaN (Num NaN) = True"
| "isNaN v = False"

text \<open>
  Truthiness, as \<^verbatim>\<open>!v\<close>, \<^verbatim>\<open>v || d\<close> and \<^verbatim>\<open>if (v)\<close> use it: \<^verbatim>\<open>undefined\<close>,
  \<^verbatim>\<open>null\<close>, \<^verbatim>\<open>false\<close>, \<^verbatim>\<open>NaN\<close>, zero and the empty string are falsy.
\<close>

fun truthy :: "jsval \<Rightarrow> bool" where
  "truthy Undefined = False"
| "truthy Null = False"
| "truthy (Bool b) = b"
| "truthy (Num NaN) = False"
| "truthy (Num (Finite q)) = (q \<noteq> 0)"
| "truthy (Num n) = True"
| "truthy (Str s) = (s \<noteq> [])"
| "truthy (Arr xs) = True"
| "truthy (Obj kvs) = True"

text \<open>\<^verbatim>\<open>a || b\<close>.\<close>

definition js_or :: "jsval \<Rightarrow> jsval \<Rightarrow> jsval" where
  "js_or a b = (if truthy a then a else b)"

text \<open>
  \<^verbatim>\<open>v.k\<close> for a value that is neither \<^verbatim>\<open>null\<close> nor \<^verbatim>\<open>undefined\<close>, and a key that
  no prototype defines (all keys read in this program are such): the own property of an
  object, \<^verbatim>\<open>undefined\<close> otherwise.
\<close>

fun get_prop :: "jsval \<Rightarrow> string \<Rightarrow> jsval" where
  "get_prop (Obj kvs) k = (case map_of kvs k of Some v \<Rightarrow> v | None \<Rightarrow> Undefined)"
| "get_prop v k = Undefined"

text \<open>\<^verbatim>\<open>k in v\<close> for an object value \<^verbatim>\<open>v\<close> (an array has indices and \<^verbatim>\<open>length\<close> only).\<close>

fun has_prop :: "string \<Rightarrow> jsval \<Rightarrow> bool" where
  "has_prop k (Obj kvs) = (k \<in> set (map fst kvs))"
| "has_prop k v = False"

text \<open>The casts \<^verbatim>\<open>as string\<close>, \<^verbatim>\<open>as number\<close>, \<^verbatim>\<open>as string[]\<close> of a checked value.\<close>

fun as_string :: "jsval \<Rightarrow> string" where
  "as_string (Str s) = s"
| "as_string v = []"

fun as_number :: "jsval \<Rightarrow> jsnum" where
  "as_number (Num n) = n"
| "as_number v = NaN"

fun as_array :: "jsval \<Rightarrow> jsval list" where
  "as_array (Arr xs) = xs"
| "as_array v = []"

definition as_strings :: "jsval \<Rightarrow> string list" where
  "as_strings v = map as_string (as_array v)"

text \<open>\<^verbatim>\<open>!Array.isArray(v) || v.some((d) => typeof d !== "string")\<close>.\<close>

definition not_string_array :: "jsval \<Rightarrow> bool" where
  "not_string_array v =
     (\<not> isArray v \<or> list_ex (\<lambda>d. typeof d \<noteq> TString) (as_array v))"

section \<open>The envelope unwrap\<close>

text \<open>
  \<^verbatim>\<open>unwrapNode\<close> of \<^verbatim>\<open>http.ts\<close>: the \<^verbatim>\<open>node\<close> property when the input is a
  non-null object that has one holding a non-null object, otherwise \<^verbatim>\<open>obj || null\<close>.
\<close>

definition unwrapNode :: "jsval \<Rightarrow> jsval" where
  "unwrapNode obj =
     (if obj \<noteq> Null \<and> typeof obj = TObject \<and> has_prop ''node'' obj
         \<and> get_prop obj ''node'' \<noteq> Null \<and> typeof (get_prop obj ''node'') = TObject
      then get_prop obj ''node''
      else js_or obj Null)"

section \<open>The request shape validator\<close>

record payload =
  user_id :: string
  age :: jsnum
  height :: string
  weight :: string
  injuries :: string
  workout_days :: "string list"
  fitness_goal :: string
  fitness_level :: string
  dietary_restrictions :: "string list"

text \<open>
  The object that \<^verbatim>\<open>assertPayloadShape\<close> returns as \<^verbatim>\<open>payload\<close>: the nine properties
  of \<^verbatim>\<open>raw\<close>, each at the type it was checked to have.
\<close>

definition payload_of :: "jsval \<Rightarrow> payload" where
  "payload_of raw =
     \<lparr> user_id = as_string (get_prop raw ''user_id''),
       age = as_number (get_prop raw ''age''),
       height = as_string (get_prop raw ''height''),
       weight = as_string (get_prop raw ''weight''),
       injuries = as_string (get_prop raw ''injuries''),
       workout_days = as_strings (get_prop raw ''workout_days''),
       fitness_goal = as_string (get_prop raw ''fitness_goal''),
       fitness_level = as_string (get_prop raw ''fitness_level''),
       dietary_restrictions = as_strings (get_prop raw ''dietary_restrictions'') \<rparr>"

text \<open>
  \<^verbatim>\<open>assertPayloadShape\<close> returns \<^verbatim>\<open>{ error }\<close> or \<^verbatim>\<open>{ payload }\<close>, never both:
  \<open>Inl\<close> is the error string, \<open>Inr\<close> the payload. The checks are the source's, in its order.
\<close>

definition assertPayloadShape :: "jsval \<Rightarrow> string + payload" where
  "assertPayloadShape obj =
     (if obj = Null \<or> typeof obj \<noteq> TObject then
        Inl ''Payload is not an object.''
      else if typeof (get_prop obj ''user_id'') \<noteq> TString then
        Inl ''Missing or invalid 'user_id' (expected string).''
      else if typeof (get_prop obj ''age'') \<noteq> TNumber then
        Inl ''Missing or invalid 'age' (expected number).''
      else if typeof (get_prop obj ''height'') \<noteq> TString then
        Inl ''Missing or invalid 'height' (expected string).''
      else if typeof (get_prop obj ''weight'') \<noteq> TString then
        Inl ''Missing or invalid 'weight' (expected string).''
      else if typeof (get_prop obj ''injuries'') \<noteq> TString then
        Inl ''Missing or invalid 'injuries' (expected string).''
      else if not_string_array (get_prop obj ''workout_days'') then
        Inl ''Missing or invalid 'workout_days' (expected string[]).''
      else if typeof (get_prop obj ''fitness_goal'') \<noteq> TString then
        Inl ''Missing or invalid 'fitness_goal' (expected string).''
      else if typeof (get_prop obj ''fitness_level'') \<noteq> TString then
        Inl ''Missing or invalid 'fitness_level' (expected string).''
      else if not_string_array (get_prop obj ''dietary_restrictions'') then
        Inl ''Missing or invalid 'dietary_restrictions' (expected string[]).''
      else
        Inr (payload_of obj))"

section \<open>The shape validators of the AI output\<close>

text \<open>
  The messages of the two validators quote a path between the typographic quotes U+2018 and
  U+2019 (three bytes each in UTF-8), and embed an index as \<^verbatim>\<open>${i}\<close>: the decimal digits
  of the number.
\<close>

definition lq :: string where
  "lq = [CHR 0xE2, CHR 0x80, CHR 0x98]"

definition rq :: string where
  "rq = [CHR 0xE2, CHR 0x80, CHR 0x99]"

definition digit_char :: "nat \<Rightarrow> char" where
  "digit_char d = ''0123456789'' ! d"

fun index_string :: "nat \<Rightarrow> string" where
  "index_string n =
     (if n < 10 then [digit_char n] else index_string (n div 10) @ [digit_char (n mod 10)])"

declare index_string.simps [simp del]

text \<open>
  The messages \<^verbatim>\<open>`Workout plan <path> <what>`\<close> and \<^verbatim>\<open>`Diet plan <path> <what>`\<close>, the
  path between the quotes.
\<close>

definition workout_error :: "string \<Rightarrow> string \<Rightarrow> string" where
  "workout_error path what = ''Workout plan '' @ lq @ path @ rq @ what"

definition diet_error :: "string \<Rightarrow> string \<Rightarrow> string" where
  "diet_error path what = ''Diet plan '' @ lq @ path @ rq @ what"

text \<open>The path \<^verbatim>\<open>exercises[${i}]\<close> and the path \<^verbatim>\<open>exercises[${i}].routines[${j}]\<close>.\<close>

definition exercise_path :: "nat \<Rightarrow> string" where
  "exercise_path i = ''exercises['' @ index_string i @ '']''"

definition routine_path :: "nat \<Rightarrow> nat \<Rightarrow> string" where
  "routine_path i j = exercise_path i @ ''.routines['' @ index_string j @ '']''"

text \<open>
  The inner loop of \<^verbatim>\<open>assertWorkoutShape\<close> over \<^verbatim>\<open>ex.routines\<close>, from index \<open>j\<close> on:
  the first error, or \<open>None\<close> when the loop ends.
\<close>

fun check_routines :: "nat \<Rightarrow> nat \<Rightarrow> jsval list \<Rightarrow> string option" where
  "check_routines i j [] = None"
| "check_routines i j (r # rs) =
     (if r = Null \<or> typeof r \<noteq> TObject then
        Some (workout_error (routine_path i j) '' is not an object.'')
      else if typeof (get_prop r ''name'') \<noteq> TString then
        Some (workout_error (routine_path i j @ ''.name'') '' must be string.'')
      else if typeof (get_prop r ''sets'') \<noteq> TNumber \<or> isNaN (get_prop r ''sets'') then
        Some (workout_error (routine_path i j @ ''.sets'') '' must be number.'')
      else if typeof (get_prop r ''reps'') \<noteq> TNumber \<or> isNaN (get_prop r ''reps'') then
        Some (workout_error (routine_path i j @ ''.reps'') '' must be number.'')
      else check_routines i (Suc j) rs)"

text \<open>The outer loop over \<^verbatim>\<open>raw.exercises\<close>, from index \<open>i\<close> on.\<close>

fun check_exercises :: "nat \<Rightarrow> jsval list \<Rightarrow> string option" where
  "check_exercises i [] = None"
| "check_exercises i (ex # exs) =
     (if ex = Null \<or> typeof ex \<noteq> TObject then
        Some (workout_error (exercise_path i) '' is not an object.'')
      else if typeof (get_prop ex ''day'') \<noteq> TString then
        Some (workout_error (exercise_path i @ ''.day'') '' must be string.'')
      else if \<not> isArray (get_prop ex ''routines'') then
        Some (workout_error (exercise_path i @ ''.routines'') '' must be an array.'')
      else
        (case check_routines i 0 (as_array (get_prop ex ''routines'')) of
           Some e \<Rightarrow> Some e
         | None \<Rightarrow> check_exercises (Suc i) exs))"

text \<open>
  \<^verbatim>\<open>assertWorkoutShape\<close>: \<open>Inl\<close> is \<^verbatim>\<open>{ error }\<close>, \<open>Inr\<close> is \<^verbatim>\<open>{ value: raw }\<close>, the
  input itself (extra properties stay).
\<close>

definition assertWorkoutShape :: "jsval \<Rightarrow> string + jsval" where
  "assertWorkoutShape obj =
     (if obj = Null \<or> typeof obj \<noteq> TObject then
        Inl ''Workout plan is not an object.''
      else if not_string_array (get_prop obj ''schedule'') then
        Inl (workout_error ''schedule'' '' must be string[].'')
      else if \<not> isArray (get_prop obj ''exercises'') then
        Inl (workout_error ''exercises'' '' must be an array.'')
      else
        (case check_exercises 0 (as_array (get_prop obj ''exercises'')) of
           Some e \<Rightarrow> Inl e
         | None \<Rightarrow> Inr obj))"

text \<open>The loop of \<^verbatim>\<open>assertDietShape\<close> over \<^verbatim>\<open>raw.meals\<close>, from index \<open>i\<close> on.\<close>

fun check_meals :: "nat \<Rightarrow> jsval list \<Rightarrow> string option" where
  "check_meals i [] = None"
| "check_meals i (meal # meals) =
     (if meal = Null \<or> typeof meal \<noteq> TObject then
        Some (diet_error (''meals['' @ index_string i @ '']'') '' is not an object.'')
      else if typeof (get_prop meal ''name'') \<noteq> TString then
        Some (diet_error (''meals['' @ index_string i @ ''].name'') '' must be string.'')
      else if not_string_array (get_prop meal ''foods'') then
        Some (diet_error (''meals['' @ index_string i @ ''].foods'') '' must be string[].'')
      else check_meals (Suc i) meals)"

definition assertDietShape :: "jsval \<Rightarrow> string + jsval" where
  "assertDietShape obj =
     (if obj = Null \<or> typeof obj \<noteq> TObject then
        Inl ''Diet plan is not an object.''
      else if typeof (get_prop obj ''dailyCalories'') \<noteq> TNumber
              \<or> isNaN (get_prop obj ''dailyCalories'') then
        Inl (diet_error ''dailyCalories'' '' must be a number.'')
      else if \<not> isArray (get_prop obj ''meals'') then
        Inl (diet_error ''meals'' '' must be an array.'')
      else
        (case check_meals 0 (as_array (get_prop obj ''meals'')) of
           Some e \<Rightarrow> Inl e
         | None \<Rightarrow> Inr obj))"

section \<open>The plan normalizers\<close>

text \<open>
  An exception that a handler can meet: a \<^verbatim>\<open>TypeError\<close> (a property read of
  \<^verbatim>\<open>null\<close> or \<^verbatim>\<open>undefined\<close>, a call of what is no function, a conversion of an
  object that has no primitive value) and the \<^verbatim>\<open>SyntaxError\<close> of a body that is not
  JSON. \<open>Inl\<close> of a result is the exception thrown.
\<close>

datatype exn = TypeError | SyntaxError

definition nullish :: "jsval \<Rightarrow> bool" where
  "nullish v = (v = Null \<or> v = Undefined)"

subsection \<open>\<^verbatim>\<open>parseInt\<close>\<close>

text \<open>
  \<^verbatim>\<open>parseInt(v)\<close> converts \<open>v\<close> to a string, skips leading white space, reads a sign and
  a \<^verbatim>\<open>0x\<close> prefix, and takes the longest run of digits of the radix (10, or 16 after the
  prefix); no digit gives \<^verbatim>\<open>NaN\<close>.

  The conversion of a number to a string (the shortest decimal that reads back as the same
  double) is not modelled: it is the parameter \<open>nts\<close>, and every result below holds for each
  choice of it. A number reaches the conversion only as an element of an array.
\<close>

text \<open>
  The white space and line terminators of the language, each as the bytes of its UTF-8
  encoding: U+0009 to U+000D, U+0020, U+00A0, U+1680, U+2000 to U+200A, U+2028, U+2029,
  U+202F, U+205F, U+3000 and U+FEFF.
\<close>

definition js_whitespace :: "string list" where
  "js_whitespace =
     [[CHR 0x09], [CHR 0x0A], [CHR 0x0B], [CHR 0x0C], [CHR 0x0D], [CHR 0x20],
      [CHR 0xC2, CHR 0xA0],
      [CHR 0xE1, CHR 0x9A, CHR 0x80],
      [CHR 0xE2, CHR 0x80, CHR 0x80], [CHR 0xE2, CHR 0x80, CHR 0x81],
      [CHR 0xE2, CHR 0x80, CHR 0x82], [CHR 0xE2, CHR 0x80, CHR 0x83],
      [CHR 0xE2, CHR 0x80, CHR 0x84], [CHR 0xE2, CHR 0x80, CHR 0x85],
      [CHR 0xE2, CHR 0x80, CHR 0x86], [CHR 0xE2, CHR 0x80, CHR 0x87],
      [CHR 0xE2, CHR 0x80, CHR 0x88], [CHR 0xE2, CHR 0x80, CHR 0x89],
      [CHR 0xE2, CHR 0x80, CHR 0x8A],
      [CHR 0xE2, CHR 0x80, CHR 0xA8], [CHR 0xE2, CHR 0x80, CHR 0xA9],
      [CHR 0xE2, CHR 0x80, CHR 0xAF],
      [CHR 0xE2, CHR 0x81, CHR 0x9F],
      [CHR 0xE3, CHR 0x80, CHR 0x80],
      [CHR 0xEF, CHR 0xBB, CHR 0xBF]]"

text \<open>The string without its leading white space.\<close>

function trim_start :: "string \<Rightarrow> string" where
  "trim_start s =
     (case find (\<lambda>w. prefix w s) js_whitespace of
        None \<Rightarrow> s
      | Some w \<Rightarrow> trim_start (drop (length w) s))"
  by pat_completeness auto
termination
proof (relation "measure length")
  fix s w
  assume "find (\<lambda>w. prefix w s) js_whitespace = Some w"
  then have "w \<in> set js_whitespace" and "prefix w s"
    by (auto simp: find_Some_iff)
  then have "w \<noteq> []" and "length w \<le> length s"
    by (auto simp: js_whitespace_def prefix_length_le)
  then show "(drop (length w) s, s) \<in> measure length"
    by (cases w) auto
qed simp

declare trim_start.simps [simp del]

text \<open>
  The double nearest to an integer, ties to the even significand: an integer of more than 53
  bits is rounded to 53, and a result of \<open>2 ^ 1024\<close> or more is infinite. (The language lets
  an implementation round a decimal numeral of more than 20 digits less exactly; the model
  rounds exactly.)
\<close>

function bit_length :: "int \<Rightarrow> nat" where
  "bit_length n = (if n \<le> 0 then 0 else Suc (bit_length (n div 2)))"
  by pat_completeness auto
termination
  by (relation "measure nat") auto

declare bit_length.simps [simp del]

definition to_double :: "int \<Rightarrow> jsnum" where
  "to_double z =
     (let n = \<bar>z\<bar>;
          e = bit_length n - 53;
          q = n div 2 ^ e;
          r = n mod 2 ^ e;
          q' = (if 2 * r > 2 ^ e \<or> (2 * r = 2 ^ e \<and> odd q) then q + 1 else q);
          m = q' * 2 ^ e
      in if m \<ge> 2 ^ 1024 then (if z < 0 then NegInfinity else PosInfinity)
         else Finite (of_int (if z < 0 then - m else m)))"

text \<open>
  The value of a digit or letter, the digits of a radix, and the value of a run of digits.
\<close>

definition digit_value :: "char \<Rightarrow> int option" where
  "digit_value c =
     (let n = (of_char c :: int) in
      if 48 \<le> n \<and> n \<le> 57 then Some (n - 48)
      else if 97 \<le> n \<and> n \<le> 122 then Some (n - 87)
      else if 65 \<le> n \<and> n \<le> 90 then Some (n - 55)
      else None)"

definition is_digit :: "int \<Rightarrow> char \<Rightarrow> bool" where
  "is_digit R c = (case digit_value c of Some d \<Rightarrow> d < R | None \<Rightarrow> False)"

definition digits_value :: "int \<Rightarrow> string \<Rightarrow> int" where
  "digits_value R Z =
     foldl (\<lambda>a c. case digit_value c of Some d \<Rightarrow> a * R + d | None \<Rightarrow> a) 0 Z"

text \<open>\<^verbatim>\<open>parseInt\<close> of a string, with no radix given.\<close>

definition parseInt_string :: "string \<Rightarrow> jsnum" where
  "parseInt_string input =
     (let S = trim_start input;
          neg = (take 1 S = ''-'');
          S1 = (if take 1 S = ''+'' \<or> take 1 S = ''-'' then drop 1 S else S);
          hex = (take 2 S1 = ''0x'' \<or> take 2 S1 = ''0X'');
          R = (if hex then 16 else 10);
          S2 = (if hex then drop 2 S1 else S1);
          Z = takeWhile (is_digit R) S2
      in if Z = [] then NaN
         else to_double ((if neg then - 1 else 1) * digits_value R Z))"

text \<open>
  \<^verbatim>\<open>String(v)\<close>, as \<^verbatim>\<open>parseInt\<close> applies it. An array joins the strings of its elements
  with commas, \<^verbatim>\<open>null\<close> and \<^verbatim>\<open>undefined\<close> elements giving the empty string. A plain
  object gives \<^verbatim>\<open>[object Object]\<close>, unless it has an own property \<^verbatim>\<open>toString\<close>: a decoded
  value is no function, so the conversion then finds no primitive value and throws.
\<close>

fun toString :: "(jsnum \<Rightarrow> string) \<Rightarrow> jsval \<Rightarrow> exn + string"
  and join_elements :: "(jsnum \<Rightarrow> string) \<Rightarrow> jsval list \<Rightarrow> exn + string" where
  "toString nts Undefined = Inr ''undefined''"
| "toString nts Null = Inr ''null''"
| "toString nts (Bool b) = Inr (if b then ''true'' else ''false'')"
| "toString nts (Num n) = Inr (nts n)"
| "toString nts (Str s) = Inr s"
| "toString nts (Arr xs) = join_elements nts xs"
| "toString nts (Obj kvs) =
     (if ''toString'' \<in> set (map fst kvs) then Inl TypeError else Inr ''[object Object]'')"
| "join_elements nts [] = Inr []"
| "join_elements nts (x # xs) =
     (case (if nullish x then Inr [] else toString nts x) of
        Inl e \<Rightarrow> Inl e
      | Inr s \<Rightarrow>
          (if xs = [] then Inr s
           else (case join_elements nts xs of
                   Inl e \<Rightarrow> Inl e
                 | Inr t \<Rightarrow> Inr (s @ '','' @ t))))"

definition parseInt :: "(jsnum \<Rightarrow> string) \<Rightarrow> jsval \<Rightarrow> exn + jsnum" where
  "parseInt nts v =
     (case toString nts v of Inl e \<Rightarrow> Inl e | Inr s \<Rightarrow> Inr (parseInt_string s))"

subsection \<open>\<^verbatim>\<open>validateWorkoutPlan\<close> and \<^verbatim>\<open>validateDietPlan\<close>\<close>

text \<open>\<^verbatim>\<open>xs.map(f)\<close> where \<open>f\<close> may throw: the first exception ends the traversal.\<close>

fun map_throw :: "('a \<Rightarrow> exn + 'b) \<Rightarrow> 'a list \<Rightarrow> exn + 'b list" where
  "map_throw f [] = Inr []"
| "map_throw f (x # xs) =
     (case f x of
        Inl e \<Rightarrow> Inl e
      | Inr y \<Rightarrow> (case map_throw f xs of Inl e \<Rightarrow> Inl e | Inr ys \<Rightarrow> Inr (y # ys)))"

text \<open>\<^verbatim>\<open>v.map(f)\<close> for any value \<open>v\<close>: only an array has a \<^verbatim>\<open>map\<close> that is a function.\<close>

definition array_map :: "(jsval \<Rightarrow> exn + jsval) \<Rightarrow> jsval \<Rightarrow> exn + jsval" where
  "array_map f v =
     (case v of
        Arr xs \<Rightarrow> (case map_throw f xs of Inl e \<Rightarrow> Inl e | Inr ys \<Rightarrow> Inr (Arr ys))
      | _ \<Rightarrow> Inl TypeError)"

text \<open>
  \<^verbatim>\<open>typeof x === "number" ? x : parseInt(x) || d\<close>, the expression of the \<^verbatim>\<open>sets\<close> and
  \<^verbatim>\<open>reps\<close> properties, with \<open>d\<close> the fallback.
\<close>

definition number_or_parsed :: "(jsnum \<Rightarrow> string) \<Rightarrow> jsval \<Rightarrow> rat \<Rightarrow> exn + jsval" where
  "number_or_parsed nts x d =
     (if typeof x = TNumber then Inr x
      else (case parseInt nts x of
              Inl e \<Rightarrow> Inl e
            | Inr n \<Rightarrow> Inr (js_or (Num n) (Num (Finite d)))))"

text \<open>The function mapped over \<^verbatim>\<open>exercise.routines\<close>.\<close>

definition normalize_routine :: "(jsnum \<Rightarrow> string) \<Rightarrow> jsval \<Rightarrow> exn + jsval" where
  "normalize_routine nts routine =
     (if nullish routine then Inl TypeError
      else (case number_or_parsed nts (get_prop routine ''sets'') 1 of
              Inl e \<Rightarrow> Inl e
            | Inr sets \<Rightarrow>
                (case number_or_parsed nts (get_prop routine ''reps'') 10 of
                   Inl e \<Rightarrow> Inl e
                 | Inr reps \<Rightarrow>
                     Inr (Obj [(''name'', get_prop routine ''name''),
                               (''sets'', sets),
                               (''reps'', reps)]))))"

text \<open>The function mapped over \<^verbatim>\<open>plan.exercises\<close>.\<close>

definition normalize_exercise :: "(jsnum \<Rightarrow> string) \<Rightarrow> jsval \<Rightarrow> exn + jsval" where
  "normalize_exercise nts exercise =
     (if nullish exercise then Inl TypeError
      else (case array_map (normalize_routine nts) (get_prop exercise ''routines'') of
              Inl e \<Rightarrow> Inl e
            | Inr routines \<Rightarrow>
                Inr (Obj [(''day'', get_prop exercise ''day''), (''routines'', routines)])))"

definition validateWorkoutPlan :: "(jsnum \<Rightarrow> string) \<Rightarrow> jsval \<Rightarrow> exn + jsval" where
  "validateWorkoutPlan nts plan =
     (if nullish plan then Inl TypeError
      else (case array_map (normalize_exercise nts) (get_prop plan ''exercises'') of
              Inl e \<Rightarrow> Inl e
            | Inr exercises \<Rightarrow>
                Inr (Obj [(''schedule'', get_prop plan ''schedule''),
                          (''exercises'', exercises)])))"

text \<open>The function mapped over \<^verbatim>\<open>plan.meals\<close>.\<close>

definition normalize_meal :: "jsval \<Rightarrow> exn + jsval" where
  "normalize_meal meal =
     (if nullish meal then Inl TypeError
      else Inr (Obj [(''name'', get_prop meal ''name''), (''foods'', get_prop meal ''foods'')]))"

definition validateDietPlan :: "jsval \<Rightarrow> exn + jsval" where
  "validateDietPlan plan =
     (if nullish plan then Inl TypeError
      else (case array_map normalize_meal (get_prop plan ''meals'') of
              Inl e \<Rightarrow> Inl e
            | Inr meals \<Rightarrow>
                Inr (Obj [(''dailyCalories'', get_prop plan ''dailyCalories''),
                          (''meals'', meals)])))"

section \<open>The webhook handler\<close>

text \<open>
  \<^verbatim>\<open>String.prototype.trim\<close>: white space is removed at both ends.
\<close>

function trim_end :: "string \<Rightarrow> string" where
  "trim_end s =
     (case find (\<lambda>w. suffix w s) js_whitespace of
        None \<Rightarrow> s
      | Some w \<Rightarrow> trim_end (take (length s - length w) s))"
  by pat_completeness auto
termination
proof (relation "measure length")
  fix s w
  assume "find (\<lambda>w. suffix w s) js_whitespace = Some w"
  then have "w \<in> set js_whitespace" and "suffix w s"
    by (auto simp: find_Some_iff)
  then have "w \<noteq> []" and "length w \<le> length s"
    by (auto simp: js_whitespace_def suffix_length_le)
  then show "(take (length s - length w) s, s) \<in> measure length"
    by (cases w) auto
qed simp

declare trim_end.simps [simp del]

definition js_trim :: "string \<Rightarrow> string" where
  "js_trim s = trim_end (trim_start s)"

text \<open>
  The event that \<^verbatim>\<open>Webhook.verify\<close> returns is typed \<^verbatim>\<open>WebhookEvent\<close> by the identity
  provider's library. Of a \<^verbatim>\<open>user.created\<close> or \<^verbatim>\<open>user.updated\<close> event the handler reads
  the five properties of \<^verbatim>\<open>evt.data\<close> below (names are \<^verbatim>\<open>string | null\<close>), and of an
  entry of \<^verbatim>\<open>email_addresses\<close> its \<^verbatim>\<open>email_address\<close>. An event of another type is kept
  by its type name.
\<close>

datatype email_address_json = EmailAddressJSON (email_address: string)

record user_json =
  user_json_id :: string
  first_name :: "string option"
  last_name :: "string option"
  image_url :: string
  email_addresses :: "email_address_json list"

datatype webhook_event =
    UserCreated user_json
  | UserUpdated user_json
  | OtherEvent string

text \<open>The arguments of \<^verbatim>\<open>api.users.syncUser\<close> and \<^verbatim>\<open>api.users.updateUser\<close>.\<close>

record user_args =
  email :: string
  name :: string
  image :: string
  clerkId :: string

datatype user_mutation = SyncUser user_args | UpdateUser user_args

text \<open>
  A request: \<^verbatim>\<open>request.headers.get(h)\<close> (\<open>None\<close> is \<^verbatim>\<open>null\<close>) and the outcome of
  \<^verbatim>\<open>request.json()\<close>. A response: the body text and the status.
\<close>

record request =
  headers :: "string \<Rightarrow> string option"
  json :: "exn + jsval"

record text_response =
  text_body :: string
  text_status :: nat

text \<open>
  What the handler does not own: the signature check of the \<^verbatim>\<open>svix\<close> library, given the
  serialised body and the three header values (\<open>None\<close> when it throws), and whether
  \<^verbatim>\<open>ctx.runMutation\<close> of a user mutation returns (\<open>True\<close>) or throws.
\<close>

record webhook_env =
  verify :: "jsval \<Rightarrow> string \<Rightarrow> string \<Rightarrow> string \<Rightarrow> webhook_event option"
  user_mutation_returns :: "user_mutation \<Rightarrow> bool"

text \<open>
  \<^verbatim>\<open>!h\<close> and \<^verbatim>\<open>h || ""\<close> for a value \<open>h\<close> of type \<^verbatim>\<open>string | null\<close>: \<^verbatim>\<open>null\<close> and the
  empty string are falsy. Past the check \<^verbatim>\<open>!h\<close> a header is its own value.
\<close>

definition header_falsy :: "string option \<Rightarrow> bool" where
  "header_falsy h = (case h of None \<Rightarrow> True | Some s \<Rightarrow> s = [])"

definition or_empty :: "string option \<Rightarrow> string" where
  "or_empty h = (case h of None \<Rightarrow> [] | Some s \<Rightarrow> s)"

text \<open>\<^verbatim>\<open>`${first_name || ""} ${last_name || ""}`.trim()\<close>.\<close>

definition display_name :: "user_json \<Rightarrow> string" where
  "display_name d =
     js_trim (or_empty (first_name d) @ '' '' @ or_empty (last_name d))"

text \<open>
  \<^verbatim>\<open>email_addresses[0].email_address\<close>: the read of index 0 of an empty array gives
  \<^verbatim>\<open>undefined\<close>, and the property read of that throws.
\<close>

definition first_email :: "user_json \<Rightarrow> exn + string" where
  "first_email d =
     (case email_addresses d of
        [] \<Rightarrow> Inl TypeError
      | e # es \<Rightarrow> Inr (email_address e))"

text \<open>
  The handler of \<^verbatim>\<open>POST /clerk-webhook\<close>. The result is the response, or \<open>Inl\<close> of an
  exception that leaves the handler uncaught, together with the mutations that were
  invoked, in order.
\<close>

definition clerk_webhook ::
  "webhook_env \<Rightarrow> request \<Rightarrow> (exn + text_response) \<times> user_mutation list" where
  "clerk_webhook env req =
     (let svix_id = headers req ''svix-id'';
          svix_signature = headers req ''svix-signature'';
          svix_timestamp = headers req ''svix-timestamp''
      in
      if header_falsy svix_id \<or> header_falsy svix_signature \<or> header_falsy svix_timestamp then
        (Inr \<lparr>text_body = ''No svix headers found'', text_status = 400\<rparr>, [])
      else
        (case (case json req of
                 Inl e \<Rightarrow> None
               | Inr b \<Rightarrow> verify env b (or_empty svix_id) (or_empty svix_timestamp)
                           (or_empty svix_signature)) of
           None \<Rightarrow> (Inr \<lparr>text_body = ''Invalid webhook signature'', text_status = 400\<rparr>, [])
         | Some evt \<Rightarrow>
             (case evt of
                UserCreated d \<Rightarrow>
                  (case first_email d of
                     Inl e \<Rightarrow> (Inl e, [])
                   | Inr em \<Rightarrow>
                       (let call = SyncUser \<lparr>email = em, name = display_name d,
                                             image = image_url d, clerkId = user_json_id d\<rparr>
                        in if user_mutation_returns env call then
                             (Inr \<lparr>text_body = ''Webhooks processed successfully'',
                                   text_status = 200\<rparr>, [call])
                           else
                             (Inr \<lparr>text_body = ''Error creating user'', text_status = 500\<rparr>,
                              [call])))
              | UserUpdated d \<Rightarrow>
                  (case first_email d of
                     Inl e \<Rightarrow> (Inl e, [])
                   | Inr em \<Rightarrow>
                       (let call = UpdateUser \<lparr>email = em, name = display_name d,
                                               image = image_url d, clerkId = user_json_id d\<rparr>
                        in if user_mutation_returns env call then
                             (Inr \<lparr>text_body = ''Webhooks processed successfully'',
                                   text_status = 200\<rparr>, [call])
                           else
                             (Inr \<lparr>text_body = ''Error updating user'', text_status = 500\<rparr>,
                              [call])))
              | OtherEvent t \<Rightarrow>
                  (Inr \<lparr>text_body = ''Webhooks processed successfully'', text_status = 200\<rparr>,
                   []))))"

section \<open>The plan store\<close>

text \<open>
  The argument validators of \<^verbatim>\<open>createPlan\<close> in \<^verbatim>\<open>convex/plans.ts\<close>: \<^verbatim>\<open>v.string()\<close>,
  \<^verbatim>\<open>v.number()\<close>, \<^verbatim>\<open>v.boolean()\<close>, \<^verbatim>\<open>v.array(e)\<close> and \<^verbatim>\<open>v.object({...})\<close>. An object
  must have every listed property, each valid, and no other.
\<close>

datatype validator =
    VString
  | VNumber
  | VBoolean
  | VArray validator
  | VObject "(string \<times> validator) list"

fun validate :: "validator \<Rightarrow> jsval \<Rightarrow> bool" where
  "validate VString v = (typeof v = TString)"
| "validate VNumber v = (typeof v = TNumber)"
| "validate VBoolean v = (typeof v = TBoolean)"
| "validate (VArray e) v = (isArray v \<and> list_all (validate e) (as_array v))"
| "validate (VObject fs) v =
     (case v of
        Obj kvs \<Rightarrow>
          set (map fst kvs) \<subseteq> set (map fst fs)
          \<and> list_all (\<lambda>(k, e). case map_of kvs k of Some x \<Rightarrow> validate e x | None \<Rightarrow> False) fs
      | _ \<Rightarrow> False)"

definition workoutPlan_validator :: validator where
  "workoutPlan_validator =
     VObject [(''schedule'', VArray VString),
              (''exercises'', VArray (VObject
                 [(''day'', VString),
                  (''routines'', VArray (VObject
                     [(''name'', VString), (''sets'', VNumber), (''reps'', VNumber)]))]))]"

definition dietPlan_validator :: validator where
  "dietPlan_validator =
     VObject [(''dailyCalories'', VNumber),
              (''meals'', VArray (VObject
                 [(''name'', VString), (''foods'', VArray VString)]))]"

text \<open>
  The arguments of \<^verbatim>\<open>createPlan\<close>; \<^verbatim>\<open>userId\<close>, \<^verbatim>\<open>name\<close> and \<^verbatim>\<open>isActive\<close> are typed as
  their validators require, the two plans are checked by \<open>args_valid\<close>. A stored document
  is the arguments with the two system fields \<^verbatim>\<open>_id\<close> and \<^verbatim>\<open>_creationTime\<close>.
\<close>

record plan_args =
  userId :: string
  name :: string
  workoutPlan :: jsval
  dietPlan :: jsval
  isActive :: bool

record plan_doc = plan_args +
  doc_id :: nat
  creationTime :: nat

definition args_valid :: "plan_args \<Rightarrow> bool" where
  "args_valid args =
     (validate workoutPlan_validator (workoutPlan args)
      \<and> validate dietPlan_validator (dietPlan args))"

text \<open>
  The table \<^verbatim>\<open>plans\<close> of the host database, as far as the two operations see it: the
  documents in the order of their insertion, and the counter from which the engine draws
  the identifier and the creation time of the next document. One mutation runs as one
  transaction, so an operation is a function from the state before to the state after.
\<close>

record db =
  plans :: "plan_doc list"
  clock :: nat

definition empty_db :: db where
  "empty_db = \<lparr>plans = [], clock = 0\<rparr>"

text \<open>
  Modelled from the spec: the index \<^verbatim>\<open>by_user_id\<close> is declared in \<^verbatim>\<open>convex/schema.ts\<close>,
  which is not among the sources. It is taken to be on \<^verbatim>\<open>userId\<close> alone, as the query
  \<^verbatim>\<open>ctx.db.query("plans").withIndex("by_user_id", (q) => q.eq("userId", u))\<close> and the
  spec's ``newest-first'' have it: the query gives the documents of the user in the order
  of the index, which within one user is the creation time, ascending.
\<close>

definition query_by_user_id :: "db \<Rightarrow> string \<Rightarrow> plan_doc list" where
  "query_by_user_id d u = sort_key creationTime (filter (\<lambda>p. userId p = u) (plans d))"

text \<open>\<^verbatim>\<open>ctx.db.patch(id, { isActive: false })\<close>.\<close>

definition patch_inactive :: "nat \<Rightarrow> db \<Rightarrow> db" where
  "patch_inactive i d =
     d\<lparr>plans := map (\<lambda>p. if doc_id p = i then p\<lparr>isActive := False\<rparr> else p) (plans d)\<rparr>"

text \<open>
  \<^verbatim>\<open>ctx.db.insert("plans", args)\<close>: the document is the arguments with its system fields;
  the result is the new identifier and the state after.
\<close>

definition document :: "plan_args \<Rightarrow> nat \<Rightarrow> plan_doc" where
  "document args n =
     \<lparr>userId = userId args, name = name args, workoutPlan = workoutPlan args,
      dietPlan = dietPlan args, isActive = isActive args,
      doc_id = n, creationTime = n\<rparr>"

definition insert_plan :: "db \<Rightarrow> plan_args \<Rightarrow> nat \<times> db" where
  "insert_plan d args =
     (clock d, d\<lparr>plans := plans d @ [document args (clock d)], clock := Suc (clock d)\<rparr>)"

text \<open>The handler of \<^verbatim>\<open>createPlan\<close>: the new identifier and the state after.\<close>

definition createPlan :: "db \<Rightarrow> plan_args \<Rightarrow> nat \<times> db" where
  "createPlan d args =
     (let activePlans = filter isActive (query_by_user_id d (userId args));
          d1 = fold (\<lambda>p. patch_inactive (doc_id p)) activePlans d
      in insert_plan d1 args)"

text \<open>The handler of \<^verbatim>\<open>getUserPlans\<close>: the index is read in descending order.\<close>

definition getUserPlans :: "db \<Rightarrow> string \<Rightarrow> plan_doc list" where
  "getUserPlans d u = rev (query_by_user_id d u)"

section \<open>The generation handler\<close>

text \<open>
  The body that a response of \<^verbatim>\<open>POST /vapi/generate-program\<close> serialises:
  \<^verbatim>\<open>{success: false, error}\<close> with a message of the handler, the same with the message
  of an exception caught by the outermost \<^verbatim>\<open>catch\<close>, or
  \<^verbatim>\<open>{success: true, data: {planId, workoutPlan, dietPlan}}\<close>.
\<close>

datatype json_body =
    Failure string
  | Unexpected exn
  | Success nat jsval jsval

record json_response =
  status :: nat
  body :: json_body

text \<open>
  What the handler does not own. The two \<^verbatim>\<open>try\<close> blocks that call the generative model
  and parse its text end with a decoded value, or in their \<^verbatim>\<open>catch\<close> (\<open>None\<close>);
  \<^verbatim>\<open>new Date().toLocaleDateString()\<close> is a string of the platform; and
  \<^verbatim>\<open>ctx.runMutation\<close> may throw for a reason of the platform's (\<open>False\<close>). The prompts
  reach the model only, and are not modelled.
\<close>

record gen_env =
  number_to_string :: "jsnum \<Rightarrow> string"
  workout_reply :: "jsval option"
  diet_reply :: "jsval option"
  today :: string
  mutation_returns :: "plan_args \<Rightarrow> bool"

text \<open>What the handler did, in order: a call of the model, a call of \<^verbatim>\<open>createPlan\<close>.\<close>

datatype plan_kind = Workout | Diet

datatype effect = GenerateContent plan_kind | RunCreatePlan plan_args

text \<open>
  \<^verbatim>\<open>ctx.runMutation(api.plans.createPlan, args)\<close>: the arguments are validated, then the
  handler runs; \<open>None\<close> when the call throws, and the database is then as before.
\<close>

definition runMutation_createPlan :: "gen_env \<Rightarrow> db \<Rightarrow> plan_args \<Rightarrow> (nat \<times> db) option" where
  "runMutation_createPlan env d args =
     (if mutation_returns env args \<and> args_valid args then Some (createPlan d args) else None)"

text \<open>The last block of the handler: the plan is saved and the response built.\<close>

definition save_plan ::
  "gen_env \<Rightarrow> payload \<Rightarrow> jsval \<Rightarrow> jsval \<Rightarrow> db \<Rightarrow> json_response \<times> db \<times> effect list" where
  "save_plan env p workoutPlan' dietPlan' d =
     (let args = \<lparr>userId = user_id p,
                  name = fitness_goal p @ '' Plan - '' @ today env,
                  workoutPlan = workoutPlan',
                  dietPlan = dietPlan',
                  isActive = True\<rparr>
      in case runMutation_createPlan env d args of
           None \<Rightarrow>
             (\<lparr>status = 500, body = Failure ''Failed to save plan to database.''\<rparr>, d,
              [GenerateContent Workout, GenerateContent Diet, RunCreatePlan args])
         | Some (planId, d') \<Rightarrow>
             (\<lparr>status = 200, body = Success planId workoutPlan' dietPlan'\<rparr>, d',
              [GenerateContent Workout, GenerateContent Diet, RunCreatePlan args]))"

text \<open>The diet block: the model is called, its reply validated and normalized.\<close>

definition diet_stage ::
  "gen_env \<Rightarrow> payload \<Rightarrow> jsval \<Rightarrow> db \<Rightarrow> json_response \<times> db \<times> effect list" where
  "diet_stage env p workoutPlan' d =
     (case diet_reply env of
        None \<Rightarrow>
          (\<lparr>status = 500, body = Failure ''Failed to generate a valid diet plan from AI.''\<rparr>, d,
           [GenerateContent Workout, GenerateContent Diet])
      | Some dietPlanRaw \<Rightarrow>
          (case assertDietShape dietPlanRaw of
             Inl dietError \<Rightarrow>
               (\<lparr>status = 500, body = Failure (''Invalid diet plan: '' @ dietError)\<rparr>, d,
                [GenerateContent Workout, GenerateContent Diet])
           | Inr dietPlanChecked \<Rightarrow>
               (case validateDietPlan dietPlanChecked of
                  Inl e \<Rightarrow>
                    (\<lparr>status = 500, body = Unexpected e\<rparr>, d,
                     [GenerateContent Workout, GenerateContent Diet])
                | Inr dietPlan' \<Rightarrow> save_plan env p workoutPlan' dietPlan' d)))"

text \<open>The workout block, likewise.\<close>

definition workout_stage ::
  "gen_env \<Rightarrow> payload \<Rightarrow> db \<Rightarrow> json_response \<times> db \<times> effect list" where
  "workout_stage env p d =
     (case workout_reply env of
        None \<Rightarrow>
          (\<lparr>status = 500, body = Failure ''Failed to generate a valid workout plan from AI.''\<rparr>,
           d, [GenerateContent Workout])
      | Some workoutPlanRaw \<Rightarrow>
          (case assertWorkoutShape workoutPlanRaw of
             Inl workoutError \<Rightarrow>
               (\<lparr>status = 500, body = Failure (''Invalid workout plan: '' @ workoutError)\<rparr>, d,
                [GenerateContent Workout])
           | Inr workoutPlanChecked \<Rightarrow>
               (case validateWorkoutPlan (number_to_string env) workoutPlanChecked of
                  Inl e \<Rightarrow>
                    (\<lparr>status = 500, body = Unexpected e\<rparr>, d, [GenerateContent Workout])
                | Inr workoutPlan' \<Rightarrow> diet_stage env p workoutPlan' d)))"

text \<open>
  The first block: \<^verbatim>\<open>unwrapNode(rawBody) || null\<close> is validated. The messages of
  \<^verbatim>\<open>assertPayloadShape\<close> are not empty, so \<^verbatim>\<open>if (payloadError)\<close> holds whenever there is
  one (and likewise for the two other validators).
\<close>

definition unwrap_and_validate :: "jsval \<Rightarrow> string + payload" where
  "unwrap_and_validate rawBody = assertPayloadShape (js_or (unwrapNode rawBody) Null)"

text \<open>
  The handler: from the outcome of \<^verbatim>\<open>request.json()\<close> and the database before, the
  response, the database after, and what was called.
\<close>

definition generate_program ::
  "gen_env \<Rightarrow> exn + jsval \<Rightarrow> db \<Rightarrow> json_response \<times> db \<times> effect list" where
  "generate_program env request_json d =
     (case request_json of
        Inl e \<Rightarrow> (\<lparr>status = 500, body = Unexpected e\<rparr>, d, [])
      | Inr rawBody \<Rightarrow>
          (case unwrap_and_validate rawBody of
             Inl payloadError \<Rightarrow> (\<lparr>status = 400, body = Failure payloadError\<rparr>, d, [])
           | Inr p \<Rightarrow> workout_stage env p d))"

section \<open>The contracts, as the specification words them\<close>

subsection \<open>The request contract\<close>

text \<open>
  The specification lists the nine fields of a generation request in a fixed order, each
  with its type, and has the validator name the first field that fails its type check.
  These definitions follow the specification's words; the theorems below compare them with
  \<open>assertPayloadShape\<close>.
\<close>

datatype field_type = StringField | NumberField | StringListField

definition request_fields :: "(string \<times> field_type) list" where
  "request_fields =
     [(''user_id'', StringField), (''age'', NumberField), (''height'', StringField),
      (''weight'', StringField), (''injuries'', StringField),
      (''workout_days'', StringListField), (''fitness_goal'', StringField),
      (''fitness_level'', StringField), (''dietary_restrictions'', StringListField)]"

fun is_string :: "jsval \<Rightarrow> bool" where
  "is_string (Str s) = True"
| "is_string v = False"

fun is_number :: "jsval \<Rightarrow> bool" where
  "is_number (Num n) = True"
| "is_number v = False"

fun is_string_list :: "jsval \<Rightarrow> bool" where
  "is_string_list (Arr xs) = list_all is_string xs"
| "is_string_list v = False"

fun has_type :: "field_type \<Rightarrow> jsval \<Rightarrow> bool" where
  "has_type StringField v = is_string v"
| "has_type NumberField v = is_number v"
| "has_type StringListField v = is_string_list v"

fun type_name :: "field_type \<Rightarrow> string" where
  "type_name StringField = ''string''"
| "type_name NumberField = ''number''"
| "type_name StringListField = ''string[]''"

definition field_error :: "string \<times> field_type \<Rightarrow> string" where
  "field_error f =
     ''Missing or invalid '' @ [CHR 0x27] @ fst f @ [CHR 0x27] @ '' (expected ''
       @ type_name (snd f) @ '').''"

definition first_failing :: "jsval \<Rightarrow> (string \<times> field_type) option" where
  "first_failing obj = find (\<lambda>f. \<not> has_type (snd f) (get_prop obj (fst f))) request_fields"

definition typed_as :: "jsval \<Rightarrow> payload \<Rightarrow> bool" where
  "typed_as obj p =
     (get_prop obj ''user_id'' = Str (user_id p)
      \<and> get_prop obj ''age'' = Num (age p)
      \<and> get_prop obj ''height'' = Str (height p)
      \<and> get_prop obj ''weight'' = Str (weight p)
      \<and> get_prop obj ''injuries'' = Str (injuries p)
      \<and> get_prop obj ''workout_days'' = Arr (map Str (workout_days p))
      \<and> get_prop obj ''fitness_goal'' = Str (fitness_goal p)
      \<and> get_prop obj ''fitness_level'' = Str (fitness_level p)
      \<and> get_prop obj ''dietary_restrictions'' = Arr (map Str (dietary_restrictions p)))"

subsection \<open>The workout contract\<close>

text \<open>
  The contract of the workout validator, in the specification's words: a number that is
  not \<^verbatim>\<open>NaN\<close>; a routine with a name, \<^verbatim>\<open>sets\<close> and \<^verbatim>\<open>reps\<close>; an exercise with a day
  and a list of routines; a plan with a schedule and a list of exercises.
\<close>

definition number_ok :: "jsval \<Rightarrow> bool" where
  "number_ok v = (is_number v \<and> v \<noteq> Num NaN)"

definition routine_ok :: "jsval \<Rightarrow> bool" where
  "routine_ok r =
     (r \<noteq> Null \<and> typeof r = TObject \<and> is_string (get_prop r ''name'')
      \<and> number_ok (get_prop r ''sets'') \<and> number_ok (get_prop r ''reps''))"

definition exercise_ok :: "jsval \<Rightarrow> bool" where
  "exercise_ok ex =
     (ex \<noteq> Null \<and> typeof ex = TObject \<and> is_string (get_prop ex ''day'')
      \<and> isArray (get_prop ex ''routines'')
      \<and> list_all routine_ok (as_array (get_prop ex ''routines'')))"

text \<open>An exercise whose own properties are well-formed, whatever its routines are.\<close>

definition exercise_header_ok :: "jsval \<Rightarrow> bool" where
  "exercise_header_ok ex =
     (ex \<noteq> Null \<and> typeof ex = TObject \<and> is_string (get_prop ex ''day'')
      \<and> isArray (get_prop ex ''routines''))"

definition workout_ok :: "jsval \<Rightarrow> bool" where
  "workout_ok obj =
     (obj \<noteq> Null \<and> typeof obj = TObject \<and> is_string_list (get_prop obj ''schedule'')
      \<and> isArray (get_prop obj ''exercises'')
      \<and> list_all exercise_ok (as_array (get_prop obj ''exercises'')))"

subsection \<open>The workout normalization\<close>

text \<open>
  A value that has a string: every value but an object with an own property
  \<^verbatim>\<open>toString\<close>, and but an array with an element that has none.
\<close>

fun convertible :: "jsval \<Rightarrow> bool" where
  "convertible (Obj kvs) = (''toString'' \<notin> set (map fst kvs))"
| "convertible (Arr xs) = list_all convertible xs"
| "convertible v = True"

text \<open>
  The number that integer parsing makes of a value (\<^verbatim>\<open>NaN\<close> when it makes none), and the
  normalized count: a number is kept, another value is parsed, and the fallback \<open>d\<close>
  stands in when the parse gives \<^verbatim>\<open>NaN\<close> or zero.
\<close>

definition parsed :: "(jsnum \<Rightarrow> string) \<Rightarrow> jsval \<Rightarrow> jsnum" where
  "parsed nts x = (case parseInt nts x of Inl e \<Rightarrow> NaN | Inr n \<Rightarrow> n)"

definition normalized :: "(jsnum \<Rightarrow> string) \<Rightarrow> rat \<Rightarrow> jsval \<Rightarrow> jsval" where
  "normalized nts d x =
     (if is_number x then x
      else if parsed nts x = NaN \<or> parsed nts x = Finite 0 then Num (Finite d)
      else Num (parsed nts x))"

definition normalized_routine :: "(jsnum \<Rightarrow> string) \<Rightarrow> jsval \<Rightarrow> jsval" where
  "normalized_routine nts r =
     Obj [(''name'', get_prop r ''name''),
          (''sets'', normalized nts 1 (get_prop r ''sets'')),
          (''reps'', normalized nts 10 (get_prop r ''reps''))]"

definition normalized_exercise :: "(jsnum \<Rightarrow> string) \<Rightarrow> jsval \<Rightarrow> jsval" where
  "normalized_exercise nts ex =
     Obj [(''day'', get_prop ex ''day''),
          (''routines'', Arr (map (normalized_routine nts) (as_array (get_prop ex ''routines''))))]"

definition normalized_plan :: "(jsnum \<Rightarrow> string) \<Rightarrow> jsval \<Rightarrow> jsval" where
  "normalized_plan nts plan =
     Obj [(''schedule'', get_prop plan ''schedule''),
          (''exercises'', Arr (map (normalized_exercise nts) (as_array (get_prop plan ''exercises''))))]"

text \<open>
  The plans that the normalizer takes: the plan, its exercises and their routines are
  neither \<^verbatim>\<open>null\<close> nor \<^verbatim>\<open>undefined\<close>, the two lists are arrays, and every \<^verbatim>\<open>sets\<close> and
  \<^verbatim>\<open>reps\<close> is a number or has a string.
\<close>

definition count_normalizable :: "jsval \<Rightarrow> bool" where
  "count_normalizable x = (is_number x \<or> convertible x)"

definition routine_normalizable :: "jsval \<Rightarrow> bool" where
  "routine_normalizable r =
     (\<not> nullish r \<and> count_normalizable (get_prop r ''sets'')
      \<and> count_normalizable (get_prop r ''reps''))"

definition exercise_normalizable :: "jsval \<Rightarrow> bool" where
  "exercise_normalizable ex =
     (\<not> nullish ex \<and> isArray (get_prop ex ''routines'')
      \<and> list_all routine_normalizable (as_array (get_prop ex ''routines'')))"

definition plan_normalizable :: "jsval \<Rightarrow> bool" where
  "plan_normalizable plan =
     (\<not> nullish plan \<and> isArray (get_prop plan ''exercises'')
      \<and> list_all exercise_normalizable (as_array (get_prop plan ''exercises'')))"

subsection \<open>The plan store\<close>

text \<open>The active plans of a user, and the deactivation of a document.\<close>

definition active_plans :: "db \<Rightarrow> string \<Rightarrow> plan_doc list" where
  "active_plans d u = filter (\<lambda>p. userId p = u \<and> isActive p) (plans d)"

definition deactivated :: "plan_doc \<Rightarrow> plan_doc" where
  "deactivated p = p\<lparr>isActive := False\<rparr>"

text \<open>
  What \<^verbatim>\<open>createPlan\<close> for the user \<open>u\<close> does to a stored document: it is patched when its
  identifier is that of an active plan of the user.
\<close>

definition superseded :: "db \<Rightarrow> string \<Rightarrow> plan_doc \<Rightarrow> plan_doc" where
  "superseded d u q =
     (if doc_id q \<in> doc_id ` {p \<in> set (plans d). userId p = u \<and> isActive p}
      then deactivated q else q)"

text \<open>
  A state that the engine can be in: identifiers are distinct, the documents are in the
  order of their creation, and the counter is beyond every identifier and creation time.
\<close>

definition wf_db :: "db \<Rightarrow> bool" where
  "wf_db d =
     (distinct (map doc_id (plans d))
      \<and> sorted_wrt (<) (map creationTime (plans d))
      \<and> list_all (\<lambda>p. doc_id p < clock d \<and> creationTime p < clock d) (plans d))"

subsection \<open>The order of the pipeline\<close>

text \<open>
  A plan has passed shape validation when the model's reply was decoded and its validator
  returned a value; a call of \<^verbatim>\<open>createPlan\<close> among what the handler did; a response that
  reports a failure.
\<close>

definition workout_validated :: "gen_env \<Rightarrow> bool" where
  "workout_validated env =
     (case workout_reply env of
        None \<Rightarrow> False
      | Some w \<Rightarrow> (case assertWorkoutShape w of Inl e \<Rightarrow> False | Inr v \<Rightarrow> True))"

definition diet_validated :: "gen_env \<Rightarrow> bool" where
  "diet_validated env =
     (case diet_reply env of
        None \<Rightarrow> False
      | Some w \<Rightarrow> (case assertDietShape w of Inl e \<Rightarrow> False | Inr v \<Rightarrow> True))"

fun is_createPlan :: "effect \<Rightarrow> bool" where
  "is_createPlan (RunCreatePlan args) = True"
| "is_createPlan (GenerateContent k) = False"

fun is_failure :: "json_body \<Rightarrow> bool" where
  "is_failure (Success planId w dt) = False"
| "is_failure b = True"

section \<open>Example inputs\<close>

subsection \<open>Requests\<close>

text \<open>Two request bodies: a complete one, and the same without \<^verbatim>\<open>age\<close>.\<close>

definition valid_request :: jsval where
  "valid_request =
     Obj [(''user_id'', Str ''user_1''), (''age'', Num (Finite 30)), (''height'', Str ''180cm''),
          (''weight'', Str ''80kg''), (''injuries'', Str ''none''),
          (''workout_days'', Arr [Str ''Monday'', Str ''Friday'']),
          (''fitness_goal'', Str ''strength''), (''fitness_level'', Str ''beginner''),
          (''dietary_restrictions'', Arr [])]"

definition request_without_age :: jsval where
  "request_without_age =
     Obj [(''user_id'', Str ''user_1''), (''height'', Str ''180cm''),
          (''weight'', Str ''80kg''), (''injuries'', Str ''none''),
          (''workout_days'', Arr [Str ''Monday'', Str ''Friday'']),
          (''fitness_goal'', Str ''strength''), (''fitness_level'', Str ''beginner''),
          (''dietary_restrictions'', Arr [])]"

text \<open>The complete request with one more property, \<^verbatim>\<open>node\<close>, holding an object.\<close>

definition request_with_node :: jsval where
  "request_with_node =
     Obj [(''user_id'', Str ''user_1''), (''age'', Num (Finite 30)), (''height'', Str ''180cm''),
          (''weight'', Str ''80kg''), (''injuries'', Str ''none''),
          (''workout_days'', Arr [Str ''Monday'', Str ''Friday'']),
          (''fitness_goal'', Str ''strength''), (''fitness_level'', Str ''beginner''),
          (''dietary_restrictions'', Arr []), (''node'', Obj [])]"

text \<open>The payload of the complete request.\<close>

definition valid_payload :: payload where
  "valid_payload =
     \<lparr>user_id = ''user_1'', age = Finite 30, height = ''180cm'', weight = ''80kg'',
      injuries = ''none'', workout_days = [''Monday'', ''Friday''], fitness_goal = ''strength'',
      fitness_level = ''beginner'', dietary_restrictions = []\<rparr>"

subsection \<open>Webhook events\<close>

text \<open>
  Webhook requests with and without the header \<^verbatim>\<open>svix-signature\<close>, a user without an
  email address, and two environments in which the signature check accepts every request.
\<close>

definition signed_headers :: "string \<Rightarrow> string option" where
  "signed_headers h =
     (if h = ''svix-id'' then Some ''msg_1''
      else if h = ''svix-timestamp'' then Some ''1700000000''
      else if h = ''svix-signature'' then Some ''v1,abc''
      else None)"

definition unsigned_headers :: "string \<Rightarrow> string option" where
  "unsigned_headers h =
     (if h = ''svix-id'' then Some ''msg_1''
      else if h = ''svix-timestamp'' then Some ''1700000000''
      else None)"

definition user_without_email :: user_json where
  "user_without_email =
     \<lparr>user_json_id = ''user_1'', first_name = Some ''Ada'', last_name = None,
      image_url = ''https://img'', email_addresses = []\<rparr>"

definition accepting_env :: webhook_env where
  "accepting_env =
     \<lparr>verify = (\<lambda>b i t s. Some (UserCreated user_without_email)),
      user_mutation_returns = (\<lambda>c. True)\<rparr>"

definition updating_env :: webhook_env where
  "updating_env =
     \<lparr>verify = (\<lambda>b i t s. Some (UserUpdated user_without_email)),
      user_mutation_returns = (\<lambda>c. True)\<rparr>"

subsection \<open>Stored plans\<close>

text \<open>Three sets of arguments of \<^verbatim>\<open>createPlan\<close> for one user.\<close>

definition plan_a :: plan_args where
  "plan_a = \<lparr>userId = ''user_1'', name = ''A'', workoutPlan = Obj [], dietPlan = Obj [],
             isActive = True\<rparr>"

definition plan_b :: plan_args where
  "plan_b = \<lparr>userId = ''user_1'', name = ''B'', workoutPlan = Obj [], dietPlan = Obj [],
             isActive = True\<rparr>"

definition plan_c :: plan_args where
  "plan_c = \<lparr>userId = ''user_1'', name = ''C'', workoutPlan = Obj [], dietPlan = Obj [],
             isActive = True\<rparr>"

subsection \<open>Workout plans and routines\<close>

text \<open>
  A workout plan of three exercises, the third with \<^verbatim>\<open>reps: "To failure"\<close> in its first
  routine.
\<close>

definition good_routine :: jsval where
  "good_routine = Obj [(''name'', Str ''Squat''), (''sets'', Num (Finite 3)), (''reps'', Num (Finite 10))]"

definition bad_routine :: jsval where
  "bad_routine = Obj [(''name'', Str ''Plank''), (''sets'', Num (Finite 3)), (''reps'', Str ''To failure'')]"

definition good_exercise :: jsval where
  "good_exercise = Obj [(''day'', Str ''Monday''), (''routines'', Arr [good_routine, good_routine])]"

definition bad_exercise :: jsval where
  "bad_exercise = Obj [(''day'', Str ''Friday''), (''routines'', Arr [bad_routine, good_routine])]"

definition bad_workout :: jsval where
  "bad_workout =
     Obj [(''schedule'', Arr [Str ''Monday'', Str ''Friday'']),
          (''exercises'', Arr [good_exercise, good_exercise, bad_exercise])]"

text \<open>
  Two workout plans whose schedule has an entry that is no string, the second entry in one
  and the first in the other.
\<close>

definition late_bad_schedule :: jsval where
  "late_bad_schedule =
     Obj [(''schedule'', Arr [Str ''Monday'', Num (Finite 5)]),
          (''exercises'', Arr [good_exercise])]"

definition early_bad_schedule :: jsval where
  "early_bad_schedule =
     Obj [(''schedule'', Arr [Num (Finite 5), Str ''Monday'']),
          (''exercises'', Arr [good_exercise])]"

text \<open>
  The examples convert no number to a string; they take the conversion that gives
  \<^verbatim>\<open>0\<close> for every number.
\<close>

definition any_number_string :: "jsnum \<Rightarrow> string" where
  "any_number_string n = ''0''"

definition textual_routine :: jsval where
  "textual_routine = Obj [(''name'', Str ''Squat''), (''sets'', Str ''3''), (''reps'', Str ''abc'')]"

definition textual_plan :: jsval where
  "textual_plan =
     Obj [(''schedule'', Arr [Str ''Monday'']),
          (''exercises'', Arr [Obj [(''day'', Str ''Monday''),
                                    (''routines'', Arr [textual_routine, good_routine])]])]"

definition unconvertible_routine :: jsval where
  "unconvertible_routine =
     Obj [(''name'', Str ''Squat''), (''sets'', Obj [(''toString'', Num (Finite 1))]),
          (''reps'', Num (Finite 10))]"

definition unconvertible_plan :: jsval where
  "unconvertible_plan =
     Obj [(''schedule'', Arr [Str ''Monday'']),
          (''exercises'', Arr [Obj [(''day'', Str ''Monday''),
                                    (''routines'', Arr [unconvertible_routine])]])]"

subsection \<open>Replies of the model\<close>

text \<open>
  A workout plan and a diet plan of the required shape, and two environments: in one the
  model returns them, in the other its diet call fails.
\<close>

definition good_workout :: jsval where
  "good_workout =
     Obj [(''schedule'', Arr [Str ''Monday'', Str ''Friday'']),
          (''exercises'', Arr [good_exercise])]"

definition good_diet :: jsval where
  "good_diet =
     Obj [(''dailyCalories'', Num (Finite 2000)),
          (''meals'', Arr [Obj [(''name'', Str ''Breakfast''),
                                (''foods'', Arr [Str ''Oatmeal'', Str ''Coffee''])]])]"

definition good_env :: gen_env where
  "good_env =
     \<lparr>number_to_string = any_number_string, workout_reply = Some good_workout,
      diet_reply = Some good_diet, today = ''1/1/2026'', mutation_returns = (\<lambda>a. True)\<rparr>"

definition no_diet_env :: gen_env where
  "no_diet_env =
     \<lparr>number_to_string = any_number_string, workout_reply = Some good_workout,
      diet_reply = None, today = ''1/1/2026'', mutation_returns = (\<lambda>a. True)\<rparr>"

text \<open>The arguments with which the handler calls \<^verbatim>\<open>createPlan\<close> in the good run.\<close>

definition good_args :: plan_args where
  "good_args =
     \<lparr>userId = ''user_1'', name = ''strength Plan - 1/1/2026'', workoutPlan = good_workout,
      dietPlan = good_diet, isActive = True\<rparr>"

section \<open>The built-in functions on examples\<close>

text \<open>
  The index of a message is printed in decimal, \<^verbatim>\<open>parseInt\<close> reads a prefix of its
  argument and rounds to a double, and the display name is trimmed.
\<close>

lemma index_string_examples:
  "index_string 7 = ''7''" "index_string 12 = ''12''" "index_string 105 = ''105''"
  by code_simp+

lemma parseInt_string_more:
  "parseInt_string ''  42px'' = Finite 42"
  "parseInt_string ''-7.9'' = Finite (- 7)"
  "parseInt_string ''0x1F'' = Finite 31"
  "parseInt_string ''0'' = Finite 0"
  "parseInt_string [] = NaN"
  "parseInt_string ''9007199254740993'' = Finite 9007199254740992"
  by code_simp+

lemma display_name_examples:
  "display_name \<lparr>user_json_id = ''u'', first_name = Some ''Ada'', last_name = None,
                  image_url = [], email_addresses = []\<rparr> = ''Ada''"
  "display_name \<lparr>user_json_id = ''u'', first_name = Some ''Ada'', last_name = Some ''Byron'',
                  image_url = [], email_addresses = []\<rparr> = ''Ada Byron''"
  by code_simp+

section \<open>Properties of the request validator\<close>

lemma typeof_string_iff: "typeof v = TString \<longleftrightarrow> v = Str (as_string v)"
  by (cases v) auto

lemma typeof_number_iff: "typeof v = TNumber \<longleftrightarrow> v = Num (as_number v)"
  by (cases v) auto

lemma all_strings_map: "\<not> list_ex (\<lambda>d. typeof d \<noteq> TString) xs \<longleftrightarrow> xs = map Str (map as_string xs)"
  by (induction xs) (auto simp: typeof_string_iff)

lemma string_array_iff: "\<not> not_string_array v \<longleftrightarrow> v = Arr (map Str (as_strings v))"
  by (cases v) (auto simp: not_string_array_def as_strings_def all_strings_map)

lemma is_string_typeof: "is_string v \<longleftrightarrow> typeof v = TString"
  by (cases v) auto

lemma is_number_typeof: "is_number v \<longleftrightarrow> typeof v = TNumber"
  by (cases v) auto

lemma is_string_list_check: "is_string_list v \<longleftrightarrow> \<not> not_string_array v"
  by (cases v) (auto simp: not_string_array_def list_all_iff list_ex_iff is_string_typeof)

lemma has_type_checks:
  "has_type StringField v \<longleftrightarrow> typeof v = TString"
  "has_type NumberField v \<longleftrightarrow> typeof v = TNumber"
  "has_type StringListField v \<longleftrightarrow> \<not> not_string_array v"
  by (simp_all add: is_string_typeof is_number_typeof is_string_list_check)

lemma field_error_names_field: "sublist (fst f) (field_error f)"
  unfolding field_error_def sublist_def by (metis append.assoc)

lemma payload_of_typed:
  assumes "first_failing obj = None"
  shows "typed_as obj (payload_of obj)"
proof -
  have "\<forall>f \<in> set request_fields. has_type (snd f) (get_prop obj (fst f))"
    using assms by (auto simp: first_failing_def find_None_iff)
  then have "typeof (get_prop obj ''user_id'') = TString"
    and "typeof (get_prop obj ''age'') = TNumber"
    and "typeof (get_prop obj ''height'') = TString"
    and "typeof (get_prop obj ''weight'') = TString"
    and "typeof (get_prop obj ''injuries'') = TString"
    and "\<not> not_string_array (get_prop obj ''workout_days'')"
    and "typeof (get_prop obj ''fitness_goal'') = TString"
    and "typeof (get_prop obj ''fitness_level'') = TString"
    and "\<not> not_string_array (get_prop obj ''dietary_restrictions'')"
    unfolding request_fields_def has_type_checks[symmetric] by simp_all
  then show ?thesis
    unfolding typed_as_def payload_of_def
    by (simp add: typeof_string_iff[symmetric] typeof_number_iff[symmetric]
        string_array_iff[symmetric])
qed

lemma assertPayloadShape_object:
  assumes "obj \<noteq> Null" and "typeof obj = TObject"
  shows "assertPayloadShape obj =
           (case first_failing obj of
              Some f \<Rightarrow> Inl (field_error f)
            | None \<Rightarrow> Inr (payload_of obj))"
proof -
  have chain: "first_failing obj =
     (if typeof (get_prop obj ''user_id'') \<noteq> TString then Some (''user_id'', StringField)
      else if typeof (get_prop obj ''age'') \<noteq> TNumber then Some (''age'', NumberField)
      else if typeof (get_prop obj ''height'') \<noteq> TString then Some (''height'', StringField)
      else if typeof (get_prop obj ''weight'') \<noteq> TString then Some (''weight'', StringField)
      else if typeof (get_prop obj ''injuries'') \<noteq> TString then Some (''injuries'', StringField)
      else if not_string_array (get_prop obj ''workout_days'')
        then Some (''workout_days'', StringListField)
      else if typeof (get_prop obj ''fitness_goal'') \<noteq> TString
        then Some (''fitness_goal'', StringField)
      else if typeof (get_prop obj ''fitness_level'') \<noteq> TString
        then Some (''fitness_level'', StringField)
      else if not_string_array (get_prop obj ''dietary_restrictions'')
        then Some (''dietary_restrictions'', StringListField)
      else None)"
    unfolding first_failing_def request_fields_def
    by (simp only: find.simps fst_conv snd_conv has_type_checks not_not)
  have errs:
    "field_error (''user_id'', StringField) = ''Missing or invalid 'user_id' (expected string).''"
    "field_error (''age'', NumberField) = ''Missing or invalid 'age' (expected number).''"
    "field_error (''height'', StringField) = ''Missing or invalid 'height' (expected string).''"
    "field_error (''weight'', StringField) = ''Missing or invalid 'weight' (expected string).''"
    "field_error (''injuries'', StringField) = ''Missing or invalid 'injuries' (expected string).''"
    "field_error (''workout_days'', StringListField)
       = ''Missing or invalid 'workout_days' (expected string[]).''"
    "field_error (''fitness_goal'', StringField)
       = ''Missing or invalid 'fitness_goal' (expected string).''"
    "field_error (''fitness_level'', StringField)
       = ''Missing or invalid 'fitness_level' (expected string).''"
    "field_error (''dietary_restrictions'', StringListField)
       = ''Missing or invalid 'dietary_restrictions' (expected string[]).''"
    by (simp_all add: field_error_def)
  show ?thesis
    using assms unfolding chain assertPayloadShape_def
    by (simp add: errs del: has_type.simps)
qed

text \<open>
  Claim C2, as amended. For \<^verbatim>\<open>null\<close> and for a value that is no object the validator
  returns the one error \<^verbatim>\<open>Payload is not an object.\<close>, which names no field. For every
  other input (a plain object or an array) it returns either the error of the first field,
  in the fixed order of the specification, whose value has not the required type, and that
  error contains the field's name; or, when no field fails, the payload whose nine fields
  are the input's, each of its type. It never returns both, and never more than one error.
\<close>

theorem payload_shape_first_failing:
  "(obj = Null \<or> typeof obj \<noteq> TObject \<longrightarrow>
      assertPayloadShape obj = Inl ''Payload is not an object.'')
   \<and> (obj \<noteq> Null \<and> typeof obj = TObject \<longrightarrow>
        (case first_failing obj of
           Some f \<Rightarrow> assertPayloadShape obj = Inl (field_error f) \<and> sublist (fst f) (field_error f)
         | None \<Rightarrow> (\<exists>p. assertPayloadShape obj = Inr p \<and> typed_as obj p)))"
proof (intro conjI impI)
  assume "obj = Null \<or> typeof obj \<noteq> TObject"
  then show "assertPayloadShape obj = Inl ''Payload is not an object.''"
    by (auto simp: assertPayloadShape_def)
next
  assume ob: "obj \<noteq> Null \<and> typeof obj = TObject"
  show "case first_failing obj of
           Some f \<Rightarrow> assertPayloadShape obj = Inl (field_error f) \<and> sublist (fst f) (field_error f)
         | None \<Rightarrow> (\<exists>p. assertPayloadShape obj = Inr p \<and> typed_as obj p)"
  proof (cases "first_failing obj")
    case None
    then show ?thesis
      using ob by (simp add: assertPayloadShape_object payload_of_typed)
  next
    case (Some f)
    then show ?thesis
      using ob by (simp add: assertPayloadShape_object field_error_names_field)
  qed
qed

lemma first_failing_without_age: "first_failing request_without_age = Some (''age'', NumberField)"
  by (simp add: first_failing_def request_fields_def request_without_age_def)

theorem payload_shape_first_failing_witness:
  "assertPayloadShape request_without_age = Inl ''Missing or invalid 'age' (expected number).''
   \<and> assertPayloadShape (Str ''x'') = Inl ''Payload is not an object.''"
proof -
  have "request_without_age \<noteq> Null \<and> typeof request_without_age = TObject"
    by (simp add: request_without_age_def)
  then have "assertPayloadShape request_without_age = Inl (field_error (''age'', NumberField))"
    using payload_shape_first_failing [of request_without_age]
    by (simp add: first_failing_without_age)
  moreover have "assertPayloadShape (Str ''x'') = Inl ''Payload is not an object.''"
    using payload_shape_first_failing [of "Str ''x''"] by simp
  ultimately show ?thesis
    by (simp add: field_error_def)
qed

text \<open>
  Claim C2 as stated fails at the input \<^verbatim>\<open>null\<close>: the first field that fails its check
  is \<^verbatim>\<open>user_id\<close>, and the error returned is not the error of that field.
\<close>

theorem payload_shape_null_counterexample:
  "assertPayloadShape Null = Inl ''Payload is not an object.''
   \<and> first_failing Null = Some (''user_id'', StringField)
   \<and> field_error (''user_id'', StringField) \<noteq> ''Payload is not an object.''"
  by (simp add: assertPayloadShape_def first_failing_def request_fields_def field_error_def)

section \<open>Properties of the envelope unwrap\<close>

lemma valid_request_payload: "assertPayloadShape valid_request = Inr valid_payload"
  by (simp add: assertPayloadShape_def valid_request_def valid_payload_def payload_of_def
      not_string_array_def as_strings_def)

lemma request_with_node_payload: "assertPayloadShape request_with_node = Inr valid_payload"
  by (simp add: assertPayloadShape_def request_with_node_def valid_payload_def payload_of_def
      not_string_array_def as_strings_def)

lemma object_truthy: "v \<noteq> Null \<Longrightarrow> typeof v = TObject \<Longrightarrow> truthy v"
  by (cases v) auto

lemma unwrapNode_wrapped:
  assumes "B \<noteq> Null" and "typeof B = TObject"
  shows "unwrapNode (Obj [(''node'', B)]) = B"
  using assms by (simp add: unwrapNode_def)

lemma unwrapNode_plain:
  assumes "\<not> (typeof (get_prop B ''node'') = TObject \<and> get_prop B ''node'' \<noteq> Null)"
  shows "unwrapNode B = js_or B Null"
  using assms by (auto simp: unwrapNode_def)

lemma unwrap_and_validate_wrapped:
  assumes "B \<noteq> Null" and "typeof B = TObject"
    and "\<not> (typeof (get_prop B ''node'') = TObject \<and> get_prop B ''node'' \<noteq> Null)"
  shows "unwrap_and_validate (Obj [(''node'', B)]) = assertPayloadShape B"
    and "unwrap_and_validate B = assertPayloadShape B"
  using assms
  by (simp_all add: unwrap_and_validate_def unwrapNode_wrapped unwrapNode_plain js_or_def
      object_truthy)

lemma validates_is_object:
  assumes "assertPayloadShape B = Inr p"
  shows "B \<noteq> Null \<and> typeof B = TObject"
  using assms by (auto simp: assertPayloadShape_def split: if_splits)

text \<open>
  Claim C5, as amended. For every request body \<open>B\<close> that validates as a generation request
  and has no property \<^verbatim>\<open>node\<close> holding a non-null object, the body \<^verbatim>\<open>{node: B}\<close> is
  processed as \<open>B\<close> is: the unwrap followed by the validation gives the same payload for
  both, and the handler gives the same response, database and calls.
\<close>

theorem wrapped_request_same:
  assumes "assertPayloadShape B = Inr p"
    and "\<not> (typeof (get_prop B ''node'') = TObject \<and> get_prop B ''node'' \<noteq> Null)"
  shows "unwrap_and_validate (Obj [(''node'', B)]) = Inr p
         \<and> unwrap_and_validate B = Inr p
         \<and> generate_program env (Inr (Obj [(''node'', B)])) d = generate_program env (Inr B) d"
proof -
  have ob: "B \<noteq> Null" "typeof B = TObject"
    using validates_is_object [OF assms(1)] by simp_all
  have "unwrap_and_validate (Obj [(''node'', B)]) = Inr p" and "unwrap_and_validate B = Inr p"
    using unwrap_and_validate_wrapped [OF ob assms(2)] assms(1) by simp_all
  then show ?thesis
    by (simp add: generate_program_def)
qed

theorem wrapped_request_same_witness:
  "unwrap_and_validate (Obj [(''node'', valid_request)]) = Inr valid_payload
   \<and> unwrap_and_validate valid_request = Inr valid_payload"
proof -
  have "\<not> (typeof (get_prop valid_request ''node'') = TObject
            \<and> get_prop valid_request ''node'' \<noteq> Null)"
    by (simp add: valid_request_def)
  from wrapped_request_same [OF valid_request_payload this] show ?thesis
    by simp
qed

text \<open>
  Claim C5 as stated fails for a body that validates and has a property \<^verbatim>\<open>node\<close> holding
  an object: wrapped, it is unwrapped once and validates; unwrapped, its \<^verbatim>\<open>node\<close> is taken
  for the request and the validation reports \<^verbatim>\<open>user_id\<close>.
\<close>

theorem wrapped_request_counterexample:
  "assertPayloadShape request_with_node = Inr valid_payload
   \<and> unwrap_and_validate (Obj [(''node'', request_with_node)]) = Inr valid_payload
   \<and> unwrap_and_validate request_with_node
       = Inl ''Missing or invalid 'user_id' (expected string).''"
proof -
  have "unwrapNode (Obj [(''node'', request_with_node)]) = request_with_node"
    by (rule unwrapNode_wrapped) (simp_all add: request_with_node_def)
  moreover have "unwrapNode request_with_node = Obj []"
    by (simp add: unwrapNode_def request_with_node_def)
  moreover have "truthy request_with_node"
    by (simp add: request_with_node_def)
  moreover have "assertPayloadShape (Obj [])
                   = Inl ''Missing or invalid 'user_id' (expected string).''"
    by (simp add: assertPayloadShape_def)
  ultimately show ?thesis
    by (simp add: unwrap_and_validate_def js_or_def request_with_node_payload)
qed

text \<open>
  Claim C10. \<^verbatim>\<open>unwrapNode\<close> strips one level, and only from a non-null object whose
  \<^verbatim>\<open>node\<close> holds a non-null object: \<^verbatim>\<open>{node: {node: P}}\<close> gives \<^verbatim>\<open>{node: P}\<close>; an
  object whose \<^verbatim>\<open>node\<close> holds \<^verbatim>\<open>null\<close> or a value that is no object is passed to the
  validation whole; a falsy input (\<^verbatim>\<open>null\<close>, \<^verbatim>\<open>0\<close>, the empty string, \<^verbatim>\<open>false\<close>) gives
  \<^verbatim>\<open>null\<close>, and the validation then fails with \<^verbatim>\<open>Payload is not an object.\<close>
\<close>

theorem unwrapNode_one_level:
  "unwrapNode (Obj [(''node'', Obj [(''node'', P)])]) = Obj [(''node'', P)]
   \<and> (map_of kvs ''node'' = Some c \<and> c \<noteq> Null \<and> typeof c = TObject \<longrightarrow>
        unwrapNode (Obj kvs) = c)
   \<and> (map_of kvs ''node'' = Some c \<and> (c = Null \<or> typeof c \<noteq> TObject) \<longrightarrow>
        unwrapNode (Obj kvs) = Obj kvs
        \<and> unwrap_and_validate (Obj kvs) = assertPayloadShape (Obj kvs))
   \<and> (\<not> truthy v \<longrightarrow>
        unwrapNode v = Null \<and> unwrap_and_validate v = Inl ''Payload is not an object.'')
   \<and> \<not> truthy Null \<and> \<not> truthy (Num (Finite 0)) \<and> \<not> truthy (Str []) \<and> \<not> truthy (Bool False)
   \<and> (unwrapNode obj \<noteq> js_or obj Null \<longrightarrow>
        obj \<noteq> Null \<and> typeof obj = TObject \<and> has_prop ''node'' obj
        \<and> get_prop obj ''node'' \<noteq> Null \<and> typeof (get_prop obj ''node'') = TObject
        \<and> unwrapNode obj = get_prop obj ''node'')"
proof -
  have one: "unwrapNode (Obj [(''node'', Obj [(''node'', P)])]) = Obj [(''node'', P)]"
    by (simp add: unwrapNode_def)
  have has: "map_of kvs ''node'' = Some c \<Longrightarrow> ''node'' \<in> fst ` set kvs"
    by (metis domI dom_map_of_conv_image_fst)
  have strip: "map_of kvs ''node'' = Some c \<and> c \<noteq> Null \<and> typeof c = TObject \<longrightarrow>
        unwrapNode (Obj kvs) = c"
    using has by (auto simp: unwrapNode_def)
  have keep: "map_of kvs ''node'' = Some c \<and> (c = Null \<or> typeof c \<noteq> TObject) \<longrightarrow>
        unwrapNode (Obj kvs) = Obj kvs
        \<and> unwrap_and_validate (Obj kvs) = assertPayloadShape (Obj kvs)"
    by (auto simp: unwrapNode_def unwrap_and_validate_def js_or_def)
  have falsy: "\<not> truthy v \<longrightarrow>
        unwrapNode v = Null \<and> unwrap_and_validate v = Inl ''Payload is not an object.''"
  proof
    assume f: "\<not> truthy v"
    then have "v = Null \<or> typeof v \<noteq> TObject"
      using object_truthy by blast
    then have "unwrapNode v = Null"
      using f by (auto simp: unwrapNode_def js_or_def)
    then show "unwrapNode v = Null \<and> unwrap_and_validate v = Inl ''Payload is not an object.''"
      by (simp add: unwrap_and_validate_def js_or_def assertPayloadShape_def)
  qed
  have only: "unwrapNode obj \<noteq> js_or obj Null \<longrightarrow>
        obj \<noteq> Null \<and> typeof obj = TObject \<and> has_prop ''node'' obj
        \<and> get_prop obj ''node'' \<noteq> Null \<and> typeof (get_prop obj ''node'') = TObject
        \<and> unwrapNode obj = get_prop obj ''node''"
    unfolding unwrapNode_def by (simp split: if_splits)
  show ?thesis
    by (intro conjI one strip keep falsy only) simp_all
qed

theorem unwrapNode_one_level_witness:
  "unwrapNode (Obj [(''node'', Obj [(''node'', Str ''p'')])]) = Obj [(''node'', Str ''p'')]
   \<and> unwrapNode (Obj [(''node'', Str ''x''), (''age'', Num (Finite 3))])
       = Obj [(''node'', Str ''x''), (''age'', Num (Finite 3))]
   \<and> unwrapNode (Num (Finite 0)) = Null
   \<and> unwrap_and_validate (Str []) = Inl ''Payload is not an object.''
   \<and> unwrapNode (Obj [(''node'', Arr [])]) = Arr []"
  using unwrapNode_one_level [of "Str ''p''" "[(''node'', Str ''x''), (''age'', Num (Finite 3))]"
      "Str ''x''" "Num (Finite 0)" "Obj [(''node'', Arr [])]"]
    unwrapNode_one_level [of "Str ''p''" "[(''node'', Arr [])]" "Arr []" "Str []" Null]
  by simp

section \<open>Properties of the webhook handler\<close>

text \<open>
  Claim C7. When one of the headers \<^verbatim>\<open>svix-id\<close>, \<^verbatim>\<open>svix-signature\<close>,
  \<^verbatim>\<open>svix-timestamp\<close> is absent, the handler responds with status 400 and invokes no
  mutation, neither \<^verbatim>\<open>syncUser\<close> nor \<^verbatim>\<open>updateUser\<close>.
\<close>

theorem webhook_missing_header:
  assumes "headers req ''svix-id'' = None \<or> headers req ''svix-signature'' = None
           \<or> headers req ''svix-timestamp'' = None"
  shows "clerk_webhook env req
         = (Inr \<lparr>text_body = ''No svix headers found'', text_status = 400\<rparr>, [])"
  using assms by (auto simp: clerk_webhook_def header_falsy_def Let_def)

theorem webhook_missing_header_witness:
  "clerk_webhook accepting_env \<lparr>headers = unsigned_headers, json = Inr (Obj [])\<rparr>
     = (Inr \<lparr>text_body = ''No svix headers found'', text_status = 400\<rparr>, [])"
proof -
  have "headers \<lparr>headers = unsigned_headers, json = Inr (Obj [])\<rparr> ''svix-signature'' = None"
    by (simp add: unsigned_headers_def)
  then show ?thesis
    using webhook_missing_header [of "\<lparr>headers = unsigned_headers, json = Inr (Obj [])\<rparr>"
        accepting_env]
    by blast
qed

text \<open>
  Claim C9. For a verified event of type \<^verbatim>\<open>user.created\<close> or \<^verbatim>\<open>user.updated\<close> whose
  \<^verbatim>\<open>email_addresses\<close> is empty, the read \<^verbatim>\<open>email_addresses[0].email_address\<close> throws
  before a mutation is invoked, and the exception leaves the handler: there is no response,
  of status 400, 500 or other.
\<close>

theorem webhook_empty_email_addresses:
  assumes "\<not> header_falsy (headers req ''svix-id'')"
    and "\<not> header_falsy (headers req ''svix-signature'')"
    and "\<not> header_falsy (headers req ''svix-timestamp'')"
    and "json req = Inr b"
    and "verify env b (or_empty (headers req ''svix-id'')) (or_empty (headers req ''svix-timestamp''))
           (or_empty (headers req ''svix-signature'')) = Some evt"
    and "evt = UserCreated u \<or> evt = UserUpdated u"
    and "email_addresses u = []"
  shows "clerk_webhook env req = (Inl TypeError, [])"
  using assms by (auto simp: clerk_webhook_def Let_def first_email_def)

theorem webhook_empty_email_addresses_witness:
  "clerk_webhook accepting_env \<lparr>headers = signed_headers, json = Inr (Obj [])\<rparr>
     = (Inl TypeError, [])
   \<and> clerk_webhook updating_env \<lparr>headers = signed_headers, json = Inr (Obj [])\<rparr>
     = (Inl TypeError, [])"
proof -
  let ?req = "\<lparr>headers = signed_headers, json = Inr (Obj [])\<rparr>"
  have h: "\<not> header_falsy (headers ?req ''svix-id'')"
    "\<not> header_falsy (headers ?req ''svix-signature'')"
    "\<not> header_falsy (headers ?req ''svix-timestamp'')"
    by (simp_all add: signed_headers_def header_falsy_def)
  have j: "json ?req = Inr (Obj [])" by simp
  have e: "email_addresses user_without_email = []"
    by (simp add: user_without_email_def)
  have "clerk_webhook accepting_env ?req = (Inl TypeError, [])"
    by (rule webhook_empty_email_addresses [OF h j _ _ e, of _ "UserCreated user_without_email"])
       (simp_all add: accepting_env_def)
  moreover have "clerk_webhook updating_env ?req = (Inl TypeError, [])"
    by (rule webhook_empty_email_addresses [OF h j _ _ e, of _ "UserUpdated user_without_email"])
       (simp_all add: updating_env_def)
  ultimately show ?thesis by simp
qed

section \<open>Properties of the plan store\<close>

lemma deactivated_simps [simp]:
  "userId (deactivated p) = userId p"
  "doc_id (deactivated p) = doc_id p"
  "creationTime (deactivated p) = creationTime p"
  "name (deactivated p) = name p"
  "\<not> isActive (deactivated p)"
  by (simp_all add: deactivated_def)

lemma deactivated_idem [simp]: "deactivated (deactivated p) = deactivated p"
  by (simp add: deactivated_def)

lemma deactivated_inactive: "\<not> isActive p \<Longrightarrow> deactivated p = p"
  by (simp add: deactivated_def)

lemma document_simps [simp]:
  "userId (document args n) = userId args"
  "name (document args n) = name args"
  "isActive (document args n) = isActive args"
  "doc_id (document args n) = n"
  "creationTime (document args n) = n"
  by (simp_all add: document_def)

lemma plans_fold_patch:
  "plans (fold (\<lambda>p. patch_inactive (doc_id p)) ps d)
     = map (\<lambda>q. if doc_id q \<in> doc_id ` set ps then deactivated q else q) (plans d)"
proof (induction ps arbitrary: d)
  case Nil
  then show ?case by simp
next
  case (Cons a ps)
  have "plans (patch_inactive (doc_id a) d)
          = map (\<lambda>q. if doc_id q = doc_id a then deactivated q else q) (plans d)"
    by (simp add: patch_inactive_def deactivated_def)
  then show ?case
    using Cons.IH [of "patch_inactive (doc_id a) d"] by (auto simp: deactivated_def)
qed

lemma clock_fold_patch: "clock (fold (\<lambda>p. patch_inactive (doc_id p)) ps d) = clock d"
  by (induction ps arbitrary: d) (simp_all add: patch_inactive_def)

lemma set_query_by_user_id: "set (query_by_user_id d u) = {p \<in> set (plans d). userId p = u}"
  by (auto simp: query_by_user_id_def)

lemma superseded_simps [simp]:
  "userId (superseded d u q) = userId q"
  "doc_id (superseded d u q) = doc_id q"
  "creationTime (superseded d u q) = creationTime q"
  by (simp_all add: superseded_def)

lemma superseded_own:
  assumes "q \<in> set (plans d)" and "userId q = u"
  shows "superseded d u q = deactivated q"
proof (cases "isActive q")
  case True
  then have "doc_id q \<in> doc_id ` {p \<in> set (plans d). userId p = u \<and> isActive p}"
    using assms by blast
  then show ?thesis by (simp add: superseded_def)
next
  case False
  then show ?thesis by (simp add: superseded_def deactivated_inactive)
qed

lemma createPlan_result:
  "createPlan d args =
     (clock d,
      \<lparr>plans = map (superseded d (userId args)) (plans d) @ [document args (clock d)],
       clock = Suc (clock d)\<rparr>)"
proof -
  let ?ps = "filter isActive (query_by_user_id d (userId args))"
  have "doc_id ` set ?ps = doc_id ` {p \<in> set (plans d). userId p = userId args \<and> isActive p}"
    by (auto simp: set_query_by_user_id)
  then have "plans (fold (\<lambda>p. patch_inactive (doc_id p)) ?ps d)
               = map (superseded d (userId args)) (plans d)"
    by (simp add: plans_fold_patch superseded_def)
  then show ?thesis
    by (simp add: createPlan_def insert_plan_def clock_fold_patch Let_def)
qed

lemma createPlan_fst [simp]: "fst (createPlan d args) = clock d"
  by (simp add: createPlan_result)

lemma createPlan_clock [simp]: "clock (snd (createPlan d args)) = Suc (clock d)"
  by (simp add: createPlan_result)

lemma createPlan_plans:
  "plans (snd (createPlan d args))
     = map (superseded d (userId args)) (plans d) @ [document args (clock d)]"
  by (simp add: createPlan_result)

lemma old_plans_inactive:
  "filter (\<lambda>p. userId p = u \<and> isActive p) (map (superseded d u) (plans d)) = []"
proof -
  have "\<not> (userId (superseded d u q) = u \<and> isActive (superseded d u q))"
    if "q \<in> set (plans d)" for q
    using that superseded_own [of q d u] by (cases "userId q = u") auto
  then show ?thesis
    by (auto simp: filter_empty_conv)
qed

lemma active_plans_createPlan:
  "active_plans (snd (createPlan d args)) (userId args)
     = (if isActive args then [document args (clock d)] else [])"
  by (simp add: active_plans_def createPlan_plans old_plans_inactive)

lemma old_plans_kept:
  assumes "p \<in> set (plans d)" and "userId p = userId args"
  shows "deactivated p \<in> set (plans (snd (createPlan d args)))"
proof -
  have "superseded d (userId args) p \<in> set (plans (snd (createPlan d args)))"
    using assms(1) by (simp add: createPlan_plans)
  then show ?thesis
    using superseded_own [OF assms] by simp
qed

text \<open>
  Claim C1. For every database state and every arguments of \<^verbatim>\<open>createPlan\<close>, after the
  call at most one plan of the user is active. When the call has \<^verbatim>\<open>isActive = true\<close>, the
  active plans of the user are the new document alone, and every plan that the user had
  before is still stored, with \<^verbatim>\<open>isActive = false\<close>. After two calls in sequence for one
  user, both with \<^verbatim>\<open>isActive = true\<close>, the one active plan is the second, and the first
  is stored with \<^verbatim>\<open>isActive = false\<close>.
\<close>

theorem createPlan_one_active:
  "length (active_plans (snd (createPlan d args)) (userId args)) \<le> 1
   \<and> (isActive args \<longrightarrow>
        active_plans (snd (createPlan d args)) (userId args)
          = [document args (fst (createPlan d args))])
   \<and> (p \<in> set (plans d) \<and> userId p = userId args \<longrightarrow>
        deactivated p \<in> set (plans (snd (createPlan d args))))
   \<and> (userId a1 = userId a2 \<and> isActive a1 \<and> isActive a2 \<longrightarrow>
        active_plans (snd (createPlan d a1)) (userId a1) = [document a1 (fst (createPlan d a1))]
        \<and> active_plans (snd (createPlan (snd (createPlan d a1)) a2)) (userId a1)
            = [document a2 (fst (createPlan (snd (createPlan d a1)) a2))]
        \<and> deactivated (document a1 (fst (createPlan d a1)))
            \<in> set (plans (snd (createPlan (snd (createPlan d a1)) a2)))
        \<and> fst (createPlan (snd (createPlan d a1)) a2) \<noteq> fst (createPlan d a1))"
proof (intro conjI impI)
  show "length (active_plans (snd (createPlan d args)) (userId args)) \<le> 1"
    by (simp add: active_plans_createPlan)
next
  assume "isActive args"
  then show "active_plans (snd (createPlan d args)) (userId args)
          = [document args (fst (createPlan d args))]"
    by (simp add: active_plans_createPlan)
next
  assume "p \<in> set (plans d) \<and> userId p = userId args"
  then show "deactivated p \<in> set (plans (snd (createPlan d args)))"
    using old_plans_kept by blast
next
  assume a: "userId a1 = userId a2 \<and> isActive a1 \<and> isActive a2"
  then have "isActive a1" by simp
  then show "active_plans (snd (createPlan d a1)) (userId a1)
               = [document a1 (fst (createPlan d a1))]"
    by (simp add: active_plans_createPlan)
  from a have "active_plans (snd (createPlan (snd (createPlan d a1)) a2)) (userId a2)
            = [document a2 (fst (createPlan (snd (createPlan d a1)) a2))]"
    using active_plans_createPlan [of "snd (createPlan d a1)" a2] by simp
  with a show "active_plans (snd (createPlan (snd (createPlan d a1)) a2)) (userId a1)
            = [document a2 (fst (createPlan (snd (createPlan d a1)) a2))]"
    by simp
  have "document a1 (clock d) \<in> set (plans (snd (createPlan d a1)))"
    by (simp add: createPlan_plans)
  moreover have "userId (document a1 (clock d)) = userId a2"
    using a by simp
  ultimately show "deactivated (document a1 (fst (createPlan d a1)))
            \<in> set (plans (snd (createPlan (snd (createPlan d a1)) a2)))"
    using old_plans_kept [of "document a1 (clock d)" "snd (createPlan d a1)" a2] by simp
  show "fst (createPlan (snd (createPlan d a1)) a2) \<noteq> fst (createPlan d a1)"
    by simp
qed

theorem createPlan_one_active_witness:
  "active_plans (snd (createPlan (snd (createPlan empty_db plan_a)) plan_b)) ''user_1''
     = [document plan_b 1]
   \<and> deactivated (document plan_a 0)
       \<in> set (plans (snd (createPlan (snd (createPlan empty_db plan_a)) plan_b)))
   \<and> length (active_plans (snd (createPlan empty_db plan_a)) ''user_1'') \<le> 1"
proof -
  have u: "userId plan_a = ''user_1''" "userId plan_b = ''user_1''"
    "isActive plan_a" "isActive plan_b"
    by (simp_all add: plan_a_def plan_b_def)
  have c: "clock empty_db = 0"
    by (simp add: empty_db_def)
  show ?thesis
    using createPlan_one_active [of empty_db plan_a "document plan_a 0" plan_a plan_b] u c
    by simp
qed

lemma wf_db_empty: "wf_db empty_db"
  by (simp add: wf_db_def empty_db_def)

lemma wf_db_createPlan:
  assumes "wf_db d"
  shows "wf_db (snd (createPlan d args))"
proof -
  have ids: "map doc_id (map (superseded d (userId args)) (plans d)) = map doc_id (plans d)"
    and times: "map creationTime (map (superseded d (userId args)) (plans d))
                  = map creationTime (plans d)"
    by simp_all
  have below: "\<forall>p \<in> set (plans d). doc_id p < clock d \<and> creationTime p < clock d"
    using assms by (simp add: wf_db_def list_all_iff)
  have "distinct (map doc_id (plans (snd (createPlan d args))))"
    using assms below unfolding createPlan_plans wf_db_def
    by (auto simp: ids simp del: map_map)
  moreover have "sorted_wrt (<) (map creationTime (plans (snd (createPlan d args))))"
    using assms below unfolding createPlan_plans wf_db_def
    by (auto simp: times sorted_wrt_append simp del: map_map)
  moreover have "list_all (\<lambda>p. doc_id p < Suc (clock d) \<and> creationTime p < Suc (clock d))
                   (plans (snd (createPlan d args)))"
    using below unfolding createPlan_plans
    by (auto simp: list_all_iff less_Suc_eq)
  ultimately show ?thesis
    by (simp add: wf_db_def)
qed

lemma query_by_user_id_wf:
  assumes "wf_db d"
  shows "query_by_user_id d u = filter (\<lambda>p. userId p = u) (plans d)"
proof -
  have "sorted_wrt (<) (map creationTime (plans d))"
    using assms by (simp add: wf_db_def)
  then have "sorted_wrt (\<lambda>p q. creationTime p < creationTime q) (plans d)"
    by (simp add: sorted_wrt_map)
  then have "sorted_wrt (\<lambda>p q. creationTime p < creationTime q)
               (filter (\<lambda>p. userId p = u) (plans d))"
    by (rule sorted_wrt_filter)
  then have "sorted_wrt (\<lambda>p q. creationTime p \<le> creationTime q)
               (filter (\<lambda>p. userId p = u) (plans d))"
    by (rule sorted_wrt_mono_rel [rotated]) simp
  then have "sorted (map creationTime (filter (\<lambda>p. userId p = u) (plans d)))"
    by (simp add: sorted_wrt_map)
  then show ?thesis
    unfolding query_by_user_id_def by (rule sort_key_id_if_sorted)
qed

lemma getUserPlans_wf:
  assumes "wf_db d"
  shows "getUserPlans d u = rev (filter (\<lambda>p. userId p = u) (plans d))"
  by (simp add: getUserPlans_def query_by_user_id_wf [OF assms])

lemma getUserPlans_sorted:
  assumes "wf_db d"
  shows "sorted_wrt (\<lambda>p q. creationTime p > creationTime q) (getUserPlans d u)"
proof -
  have "sorted_wrt (<) (map creationTime (plans d))"
    using assms by (simp add: wf_db_def)
  then have "sorted_wrt (\<lambda>p q. creationTime p < creationTime q) (plans d)"
    by (simp add: sorted_wrt_map)
  then have "sorted_wrt (\<lambda>p q. creationTime p < creationTime q)
               (filter (\<lambda>p. userId p = u) (plans d))"
    by (rule sorted_wrt_filter)
  then show ?thesis
    by (simp add: getUserPlans_wf [OF assms] sorted_wrt_rev)
qed

lemma getUserPlans_createPlan:
  assumes "wf_db d"
  shows "getUserPlans (snd (createPlan d args)) (userId args)
           = document args (clock d) # map deactivated (getUserPlans d (userId args))"
proof -
  let ?u = "userId args"
  have "filter (\<lambda>p. userId p = ?u) (map (superseded d ?u) (plans d))
          = map (superseded d ?u) (filter (\<lambda>p. userId p = ?u) (plans d))"
    by (simp add: filter_map comp_def)
  also have "\<dots> = map deactivated (filter (\<lambda>p. userId p = ?u) (plans d))"
    by (rule map_cong) (auto simp: superseded_own)
  finally have "filter (\<lambda>p. userId p = ?u) (plans (snd (createPlan d args)))
                  = map deactivated (filter (\<lambda>p. userId p = ?u) (plans d))
                    @ [document args (clock d)]"
    by (simp add: createPlan_plans)
  then show ?thesis
    by (simp add: getUserPlans_wf [OF wf_db_createPlan [OF assms]] getUserPlans_wf [OF assms]
        rev_map)
qed

text \<open>
  Claim C8. \<^verbatim>\<open>getUserPlans\<close> returns the stored plans of the user, all of them and no
  other, the newest first: in the reverse of the order of insertion, with strictly
  decreasing creation times. After three insertions in sequence for one user, the result
  starts with the third, the second and the first, in this order.
\<close>

theorem getUserPlans_newest_first:
  assumes "wf_db d"
  shows "getUserPlans d u = rev (filter (\<lambda>p. userId p = u) (plans d))
         \<and> set (getUserPlans d u) = {p \<in> set (plans d). userId p = u}
         \<and> sorted_wrt (\<lambda>p q. creationTime p > creationTime q) (getUserPlans d u)
         \<and> (userId a1 = u \<and> userId a2 = u \<and> userId a3 = u \<longrightarrow>
              getUserPlans
                (snd (createPlan (snd (createPlan (snd (createPlan d a1)) a2)) a3)) u
              = document a3 (clock d + 2)
                # deactivated (document a2 (clock d + 1))
                # deactivated (document a1 (clock d))
                # map deactivated (getUserPlans d u))"
proof (intro conjI impI)
  show "getUserPlans d u = rev (filter (\<lambda>p. userId p = u) (plans d))"
    by (rule getUserPlans_wf [OF assms])
  then show "set (getUserPlans d u) = {p \<in> set (plans d). userId p = u}"
    by auto
  show "sorted_wrt (\<lambda>p q. creationTime p > creationTime q) (getUserPlans d u)"
    by (rule getUserPlans_sorted [OF assms])
next
  assume u: "userId a1 = u \<and> userId a2 = u \<and> userId a3 = u"
  let ?d1 = "snd (createPlan d a1)"
  let ?d2 = "snd (createPlan ?d1 a2)"
  have w1: "wf_db ?d1" by (rule wf_db_createPlan [OF assms])
  have w2: "wf_db ?d2" by (rule wf_db_createPlan [OF w1])
  have g1: "getUserPlans ?d1 u = document a1 (clock d) # map deactivated (getUserPlans d u)"
    using getUserPlans_createPlan [OF assms, of a1] u by simp
  have g2: "getUserPlans ?d2 u = document a2 (clock ?d1) # map deactivated (getUserPlans ?d1 u)"
    using getUserPlans_createPlan [OF w1, of a2] u by simp
  have g3: "getUserPlans (snd (createPlan ?d2 a3)) u
              = document a3 (clock ?d2) # map deactivated (getUserPlans ?d2 u)"
    using getUserPlans_createPlan [OF w2, of a3] u by simp
  show "getUserPlans (snd (createPlan ?d2 a3)) u
              = document a3 (clock d + 2)
                # deactivated (document a2 (clock d + 1))
                # deactivated (document a1 (clock d))
                # map deactivated (getUserPlans d u)"
    unfolding g3 g2 g1 by (simp add: comp_def)
qed

theorem getUserPlans_newest_first_witness:
  "map name (getUserPlans
       (snd (createPlan (snd (createPlan (snd (createPlan empty_db plan_a)) plan_b)) plan_c))
       ''user_1'')
     = [''C'', ''B'', ''A'']
   \<and> map creationTime (getUserPlans
       (snd (createPlan (snd (createPlan (snd (createPlan empty_db plan_a)) plan_b)) plan_c))
       ''user_1'')
     = [2, 1, 0]"
proof -
  have u: "userId plan_a = ''user_1''" "userId plan_b = ''user_1''" "userId plan_c = ''user_1''"
    by (simp_all add: plan_a_def plan_b_def plan_c_def)
  have e: "getUserPlans empty_db ''user_1'' = []" "clock empty_db = 0"
    by (simp_all add: getUserPlans_def query_by_user_id_def empty_db_def)
  have n: "name plan_a = ''A''" "name plan_b = ''B''" "name plan_c = ''C''"
    by (simp_all add: plan_a_def plan_b_def plan_c_def)
  show ?thesis
    using getUserPlans_newest_first [OF wf_db_empty, of "''user_1''" plan_a plan_b plan_c] u
    by (simp add: e n)
qed

section \<open>Properties of the workout validator\<close>

lemma number_ok_check: "number_ok v \<longleftrightarrow> \<not> (typeof v \<noteq> TNumber \<or> isNaN v)"
proof (cases v)
  case (Num n)
  then show ?thesis by (cases n) (simp_all add: number_ok_def)
qed (simp_all add: number_ok_def)

lemma sublist_workout_error: "sublist p (workout_error (p @ x) s)"
  unfolding workout_error_def sublist_def
  by (rule exI [of _ "''Workout plan '' @ lq"], rule exI [of _ "x @ rq @ s"]) simp

lemma sublist_workout_error_path: "sublist p (workout_error p s)"
  using sublist_workout_error [of p "[]" s] by simp

lemma sublist_exercise_routine_path: "sublist (exercise_path i) (routine_path i j)"
  unfolding routine_path_def by (rule prefix_imp_sublist) simp

lemma check_routines_head:
  assumes "\<not> routine_ok r"
  shows "\<exists>e. check_routines i j (r # rs) = Some e \<and> sublist (routine_path i j) e"
  using assms
  by (auto simp: routine_ok_def number_ok_check is_string_typeof sublist_workout_error
      sublist_workout_error_path)

lemma check_routines_step:
  assumes "routine_ok r"
  shows "check_routines i j (r # rs) = check_routines i (Suc j) rs"
  using assms by (auto simp: routine_ok_def number_ok_check is_string_typeof)

lemma check_routines_prefix:
  assumes "list_all routine_ok pre"
  shows "check_routines i j (pre @ rest) = check_routines i (j + length pre) rest"
  using assms
proof (induction pre arbitrary: j)
  case Nil
  then show ?case by simp
next
  case (Cons r pre)
  then show ?case
    by (simp add: check_routines_step del: check_routines.simps)
qed

lemma check_routines_None: "check_routines i j rs = None \<longleftrightarrow> list_all routine_ok rs"
proof (induction rs arbitrary: j)
  case Nil
  then show ?case by simp
next
  case (Cons r rs)
  show ?case
  proof (cases "routine_ok r")
    case True
    then show ?thesis
      using Cons.IH [of "Suc j"] by (simp add: check_routines_step del: check_routines.simps)
  next
    case False
    then show ?thesis
      using check_routines_head [OF False, of i j rs] by auto
  qed
qed

lemma check_routines_Some:
  assumes "check_routines i j rs = Some e"
  shows "\<exists>k < length rs. list_all routine_ok (take k rs) \<and> \<not> routine_ok (rs ! k)
           \<and> sublist (routine_path i (j + k)) e"
  using assms
proof (induction rs arbitrary: j)
  case Nil
  then show ?case by simp
next
  case (Cons r rs)
  show ?case
  proof (cases "routine_ok r")
    case True
    then have "check_routines i (Suc j) rs = Some e"
      using Cons.prems by (simp add: check_routines_step del: check_routines.simps)
    then obtain k where "k < length rs" "list_all routine_ok (take k rs)" "\<not> routine_ok (rs ! k)"
      "sublist (routine_path i (Suc j + k)) e"
      using Cons.IH by blast
    then show ?thesis
      using True by (intro exI [of _ "Suc k"]) simp
  next
    case False
    then show ?thesis
      using check_routines_head [OF False, of i j rs] Cons.prems
      by (intro exI [of _ 0]) auto
  qed
qed

lemma check_exercises_head:
  assumes "\<not> exercise_ok ex"
  shows "\<exists>e. check_exercises i (ex # exs) = Some e \<and> sublist (exercise_path i) e"
proof (cases "ex = Null \<or> typeof ex \<noteq> TObject \<or> typeof (get_prop ex ''day'') \<noteq> TString
              \<or> \<not> isArray (get_prop ex ''routines'')")
  case True
  then show ?thesis
    by (auto simp: sublist_workout_error sublist_workout_error_path)
next
  case False
  then have "\<not> list_all routine_ok (as_array (get_prop ex ''routines''))"
    using assms by (auto simp: exercise_ok_def is_string_typeof)
  then obtain e where e: "check_routines i 0 (as_array (get_prop ex ''routines'')) = Some e"
    using check_routines_None by (metis not_Some_eq)
  then obtain k where "sublist (routine_path i (0 + k)) e"
    using check_routines_Some by blast
  then have "sublist (exercise_path i) e"
    using sublist_exercise_routine_path sublist_order.order_trans by blast
  then show ?thesis
    using False e by simp
qed

lemma check_exercises_step:
  assumes "exercise_ok ex"
  shows "check_exercises i (ex # exs) = check_exercises (Suc i) exs"
proof -
  have "check_routines i 0 (as_array (get_prop ex ''routines'')) = None"
    using assms by (simp add: check_routines_None exercise_ok_def)
  then show ?thesis
    using assms by (simp add: exercise_ok_def is_string_typeof)
qed

lemma check_exercises_prefix:
  assumes "list_all exercise_ok pre"
  shows "check_exercises i (pre @ rest) = check_exercises (i + length pre) rest"
  using assms
proof (induction pre arbitrary: i)
  case Nil
  then show ?case by simp
next
  case (Cons ex pre)
  then show ?case
    by (simp add: check_exercises_step del: check_exercises.simps)
qed

lemma check_exercises_None: "check_exercises i exs = None \<longleftrightarrow> list_all exercise_ok exs"
proof (induction exs arbitrary: i)
  case Nil
  then show ?case by simp
next
  case (Cons ex exs)
  show ?case
  proof (cases "exercise_ok ex")
    case True
    then show ?thesis
      using Cons.IH [of "Suc i"] by (simp add: check_exercises_step del: check_exercises.simps)
  next
    case False
    then show ?thesis
      using check_exercises_head [OF False, of i exs] by auto
  qed
qed

lemma check_exercises_routines:
  assumes "exercise_header_ok ex" and "\<not> exercise_ok ex"
  shows "check_exercises i (ex # exs)
           = check_routines i 0 (as_array (get_prop ex ''routines''))"
proof -
  have "\<not> list_all routine_ok (as_array (get_prop ex ''routines''))"
    using assms by (auto simp: exercise_ok_def exercise_header_ok_def)
  then obtain e where "check_routines i 0 (as_array (get_prop ex ''routines'')) = Some e"
    using check_routines_None by (metis not_Some_eq)
  then show ?thesis
    using assms(1) by (simp add: exercise_header_ok_def is_string_typeof)
qed

lemma check_exercises_Some:
  assumes "check_exercises i exs = Some e"
  shows "\<exists>k < length exs. list_all exercise_ok (take k exs) \<and> \<not> exercise_ok (exs ! k)
           \<and> sublist (exercise_path (i + k)) e
           \<and> (exercise_header_ok (exs ! k) \<longrightarrow>
                check_routines (i + k) 0 (as_array (get_prop (exs ! k) ''routines'')) = Some e)"
  using assms
proof (induction exs arbitrary: i)
  case Nil
  then show ?case by simp
next
  case (Cons ex exs)
  show ?case
  proof (cases "exercise_ok ex")
    case True
    then have "check_exercises (Suc i) exs = Some e"
      using Cons.prems by (simp add: check_exercises_step del: check_exercises.simps)
    then obtain k where "k < length exs" "list_all exercise_ok (take k exs)"
      "\<not> exercise_ok (exs ! k)" "sublist (exercise_path (Suc i + k)) e"
      "exercise_header_ok (exs ! k) \<longrightarrow>
         check_routines (Suc i + k) 0 (as_array (get_prop (exs ! k) ''routines'')) = Some e"
      using Cons.IH by blast
    then show ?thesis
      using True by (intro exI [of _ "Suc k"]) simp
  next
    case False
    have "exercise_header_ok ex \<longrightarrow>
            check_routines i 0 (as_array (get_prop ex ''routines'')) = Some e"
      using check_exercises_routines [OF _ False, of i exs] Cons.prems by auto
    then show ?thesis
      using check_exercises_head [OF False, of i exs] Cons.prems False
      by (intro exI [of _ 0]) auto
  qed
qed

lemma assertWorkoutShape_error:
  assumes "obj \<noteq> Null" and "typeof obj = TObject"
    and "is_string_list (get_prop obj ''schedule'')"
    and "get_prop obj ''exercises'' = Arr exs"
    and "assertWorkoutShape obj = Inl e"
  shows "\<exists>i < length exs. list_all exercise_ok (take i exs) \<and> \<not> exercise_ok (exs ! i)
           \<and> sublist (exercise_path i) e
           \<and> (exercise_header_ok (exs ! i) \<longrightarrow>
                (\<exists>j < length (as_array (get_prop (exs ! i) ''routines'')).
                   list_all routine_ok (take j (as_array (get_prop (exs ! i) ''routines'')))
                   \<and> \<not> routine_ok (as_array (get_prop (exs ! i) ''routines'') ! j)
                   \<and> sublist (routine_path i j) e))"
proof -
  have "check_exercises 0 exs = Some e"
    using assms by (simp add: assertWorkoutShape_def is_string_list_check split: option.splits)
  then obtain i where i: "i < length exs" "list_all exercise_ok (take i exs)"
    "\<not> exercise_ok (exs ! i)" "sublist (exercise_path i) e"
    and r: "exercise_header_ok (exs ! i) \<longrightarrow>
             check_routines i 0 (as_array (get_prop (exs ! i) ''routines'')) = Some e"
    using check_exercises_Some [of 0 exs e] by auto
  have "exercise_header_ok (exs ! i) \<longrightarrow>
                (\<exists>j < length (as_array (get_prop (exs ! i) ''routines'')).
                   list_all routine_ok (take j (as_array (get_prop (exs ! i) ''routines'')))
                   \<and> \<not> routine_ok (as_array (get_prop (exs ! i) ''routines'') ! j)
                   \<and> sublist (routine_path i j) e)"
    using r check_routines_Some [of i 0 "as_array (get_prop (exs ! i) ''routines'')" e]
    by auto
  then show ?thesis
    using i by blast
qed

lemma assertWorkoutShape_ok: "assertWorkoutShape obj = Inr v \<longleftrightarrow> v = obj \<and> workout_ok obj"
proof (cases "check_exercises 0 (as_array (get_prop obj ''exercises''))")
  case None
  then have "list_all exercise_ok (as_array (get_prop obj ''exercises''))"
    by (simp add: check_exercises_None)
  then show ?thesis
    using None by (auto simp: assertWorkoutShape_def workout_ok_def is_string_list_check)
next
  case (Some e)
  then have "\<not> list_all exercise_ok (as_array (get_prop obj ''exercises''))"
    using check_exercises_None [of 0 "as_array (get_prop obj ''exercises'')"] by simp
  then show ?thesis
    using Some by (auto simp: assertWorkoutShape_def workout_ok_def)
qed

lemma reps_error_at:
  assumes "j < length rs" and "list_all routine_ok (take j rs)"
    and "rs ! j \<noteq> Null" and "typeof (rs ! j) = TObject"
    and "typeof (get_prop (rs ! j) ''name'') = TString"
    and "number_ok (get_prop (rs ! j) ''sets'')"
    and "\<not> number_ok (get_prop (rs ! j) ''reps'')"
  shows "check_routines i 0 rs
           = Some (workout_error (routine_path i j @ ''.reps'') '' must be number.'')"
proof -
  have "rs = take j rs @ rs ! j # drop (Suc j) rs"
    using assms(1) by (rule id_take_nth_drop)
  then have "check_routines i 0 rs = check_routines i j (rs ! j # drop (Suc j) rs)"
    using check_routines_prefix [OF assms(2), of i 0 "rs ! j # drop (Suc j) rs"] assms(1)
    by simp
  also have "\<dots> = Some (workout_error (routine_path i j @ ''.reps'') '' must be number.'')"
    using assms(3-7) by (simp add: number_ok_check)
  finally show ?thesis .
qed

lemma workout_reps_error:
  assumes "obj \<noteq> Null" and "typeof obj = TObject"
    and "is_string_list (get_prop obj ''schedule'')"
    and "get_prop obj ''exercises'' = Arr exs"
    and "i < length exs" and "list_all exercise_ok (take i exs)"
    and "exs ! i \<noteq> Null" and "typeof (exs ! i) = TObject"
    and "typeof (get_prop (exs ! i) ''day'') = TString"
    and "get_prop (exs ! i) ''routines'' = Arr rs"
    and "j < length rs" and "list_all routine_ok (take j rs)"
    and "rs ! j \<noteq> Null" and "typeof (rs ! j) = TObject"
    and "typeof (get_prop (rs ! j) ''name'') = TString"
    and "number_ok (get_prop (rs ! j) ''sets'')"
    and "\<not> number_ok (get_prop (rs ! j) ''reps'')"
  shows "assertWorkoutShape obj
           = Inl (workout_error
                   (''exercises['' @ index_string i @ ''].routines['' @ index_string j
                      @ ''].reps'')
                   '' must be number.'')
         \<and> sublist (''exercises['' @ index_string i @ ''].routines['' @ index_string j
                      @ ''].reps'')
             (workout_error
                   (''exercises['' @ index_string i @ ''].routines['' @ index_string j
                      @ ''].reps'')
                   '' must be number.'')"
proof -
  let ?e = "workout_error (routine_path i j @ ''.reps'') '' must be number.''"
  have r: "check_routines i 0 rs = Some ?e"
    by (rule reps_error_at [OF assms(11-17)])
  have "exs = take i exs @ exs ! i # drop (Suc i) exs"
    using assms(5) by (rule id_take_nth_drop)
  then have "check_exercises 0 exs = check_exercises i (exs ! i # drop (Suc i) exs)"
    using check_exercises_prefix [OF assms(6), of 0 "exs ! i # drop (Suc i) exs"] assms(5)
    by simp
  also have "\<dots> = Some ?e"
    using assms(7-10) r by simp
  finally have "assertWorkoutShape obj = Inl ?e"
    using assms(1-4) by (simp add: assertWorkoutShape_def is_string_list_check)
  moreover have "routine_path i j @ ''.reps''
      = ''exercises['' @ index_string i @ ''].routines['' @ index_string j @ ''].reps''"
    by (simp add: routine_path_def exercise_path_def)
  ultimately show ?thesis
    using sublist_workout_error_path by simp
qed

text \<open>
  Claim C6, as amended. When the plan is well-formed up to \<^verbatim>\<open>exercises[i].routines[j]\<close>
  and the \<^verbatim>\<open>reps\<close> of that routine is not a number, or is \<^verbatim>\<open>NaN\<close>, the validator returns
  the error whose path is \<^verbatim>\<open>exercises[i].routines[j].reps\<close>, so the error contains that
  path. More generally the validator checks every entry of the schedule, every exercise and
  every routine: it accepts a plan exactly when all of them are well-formed. An error found
  in the list of exercises is that of the first exercise that is not well-formed, and in it
  of the first routine that is not, and contains the index path of each. A schedule that is
  no array, or has an entry that is no string, is reported by the name of the field alone,
  with no index.
\<close>

theorem workout_shape_error_paths:
  "(obj \<noteq> Null \<and> typeof obj = TObject \<and> is_string_list (get_prop obj ''schedule'')
      \<and> get_prop obj ''exercises'' = Arr exs
      \<and> i < length exs \<and> list_all exercise_ok (take i exs)
      \<and> exs ! i \<noteq> Null \<and> typeof (exs ! i) = TObject
      \<and> typeof (get_prop (exs ! i) ''day'') = TString
      \<and> get_prop (exs ! i) ''routines'' = Arr rs
      \<and> j < length rs \<and> list_all routine_ok (take j rs)
      \<and> rs ! j \<noteq> Null \<and> typeof (rs ! j) = TObject
      \<and> typeof (get_prop (rs ! j) ''name'') = TString
      \<and> number_ok (get_prop (rs ! j) ''sets'')
      \<and> \<not> number_ok (get_prop (rs ! j) ''reps'')
    \<longrightarrow> assertWorkoutShape obj
           = Inl (workout_error
                   (''exercises['' @ index_string i @ ''].routines['' @ index_string j
                      @ ''].reps'')
                   '' must be number.'')
        \<and> sublist (''exercises['' @ index_string i @ ''].routines['' @ index_string j
                      @ ''].reps'')
             (workout_error
                   (''exercises['' @ index_string i @ ''].routines['' @ index_string j
                      @ ''].reps'')
                   '' must be number.''))
   \<and> (assertWorkoutShape obj = Inr v \<longleftrightarrow> v = obj \<and> workout_ok obj)
   \<and> (obj \<noteq> Null \<and> typeof obj = TObject \<and> \<not> is_string_list (get_prop obj ''schedule'')
      \<longrightarrow> assertWorkoutShape obj = Inl (workout_error ''schedule'' '' must be string[].''))
   \<and> (obj \<noteq> Null \<and> typeof obj = TObject \<and> is_string_list (get_prop obj ''schedule'')
        \<and> get_prop obj ''exercises'' = Arr exs \<and> assertWorkoutShape obj = Inl e
      \<longrightarrow> (\<exists>i < length exs. list_all exercise_ok (take i exs) \<and> \<not> exercise_ok (exs ! i)
           \<and> sublist (exercise_path i) e
           \<and> (exercise_header_ok (exs ! i) \<longrightarrow>
                (\<exists>j < length (as_array (get_prop (exs ! i) ''routines'')).
                   list_all routine_ok (take j (as_array (get_prop (exs ! i) ''routines'')))
                   \<and> \<not> routine_ok (as_array (get_prop (exs ! i) ''routines'') ! j)
                   \<and> sublist (routine_path i j) e))))"
proof (intro conjI)
  show "assertWorkoutShape obj = Inr v \<longleftrightarrow> v = obj \<and> workout_ok obj"
    by (rule assertWorkoutShape_ok)
  show "obj \<noteq> Null \<and> typeof obj = TObject \<and> \<not> is_string_list (get_prop obj ''schedule'')
      \<longrightarrow> assertWorkoutShape obj = Inl (workout_error ''schedule'' '' must be string[].'')"
    by (simp add: assertWorkoutShape_def is_string_list_check)
qed (use workout_reps_error assertWorkoutShape_error in blast)+

lemma index_string_digits: "index_string 0 = ''0''" "index_string 2 = ''2''"
  by (simp_all add: index_string.simps [of 0] index_string.simps [of 2] digit_char_def)

theorem workout_shape_error_paths_witness:
  "assertWorkoutShape bad_workout
     = Inl (''Workout plan '' @ lq @ ''exercises[2].routines[0].reps'' @ rq
              @ '' must be number.'')
   \<and> sublist ''exercises[2].routines[0].reps''
        (''Workout plan '' @ lq @ ''exercises[2].routines[0].reps'' @ rq
              @ '' must be number.'')
   \<and> assertWorkoutShape late_bad_schedule
       = Inl (''Workout plan '' @ lq @ ''schedule'' @ rq @ '' must be string[].'')"
proof -
  have s: "late_bad_schedule \<noteq> Null \<and> typeof late_bad_schedule = TObject
      \<and> \<not> is_string_list (get_prop late_bad_schedule ''schedule'')"
    by (simp add: late_bad_schedule_def)
  let ?exs = "[good_exercise, good_exercise, bad_exercise]"
  let ?rs = "[bad_routine, good_routine]"
  have g: "routine_ok good_routine" "\<not> number_ok (get_prop bad_routine ''reps'')"
    "number_ok (get_prop bad_routine ''sets'')"
    by (simp_all add: routine_ok_def good_routine_def bad_routine_def number_ok_def)
  then have ge: "exercise_ok good_exercise"
    by (simp add: exercise_ok_def good_exercise_def)
  have "bad_workout \<noteq> Null \<and> typeof bad_workout = TObject
      \<and> is_string_list (get_prop bad_workout ''schedule'')
      \<and> get_prop bad_workout ''exercises'' = Arr ?exs
      \<and> 2 < length ?exs \<and> list_all exercise_ok (take 2 ?exs)
      \<and> ?exs ! 2 \<noteq> Null \<and> typeof (?exs ! 2) = TObject
      \<and> typeof (get_prop (?exs ! 2) ''day'') = TString
      \<and> get_prop (?exs ! 2) ''routines'' = Arr ?rs
      \<and> 0 < length ?rs \<and> list_all routine_ok (take 0 ?rs)
      \<and> ?rs ! 0 \<noteq> Null \<and> typeof (?rs ! 0) = TObject
      \<and> typeof (get_prop (?rs ! 0) ''name'') = TString
      \<and> number_ok (get_prop (?rs ! 0) ''sets'')
      \<and> \<not> number_ok (get_prop (?rs ! 0) ''reps'')"
    using g ge by (simp add: bad_workout_def bad_exercise_def) (simp add: bad_routine_def)
  then show ?thesis
    using workout_shape_error_paths [of bad_workout ?exs 2 ?rs 0]
      workout_shape_error_paths [of late_bad_schedule] s
    by (simp add: index_string_digits workout_error_def)
qed

text \<open>
  Claim C6 as stated fails in its general part for the schedule: the validator checks every
  entry of that list, and the error for an entry that is no string embeds no index. The
  message is the same whether the second entry fails or the first, and contains neither
  \<^verbatim>\<open>[1]\<close> nor \<^verbatim>\<open>[0]\<close>.
\<close>

theorem workout_schedule_counterexample:
  "assertWorkoutShape late_bad_schedule
     = Inl (''Workout plan '' @ lq @ ''schedule'' @ rq @ '' must be string[].'')
   \<and> assertWorkoutShape early_bad_schedule
     = Inl (''Workout plan '' @ lq @ ''schedule'' @ rq @ '' must be string[].'')
   \<and> \<not> sublist ''[1]'' (''Workout plan '' @ lq @ ''schedule'' @ rq @ '' must be string[].'')
   \<and> \<not> sublist ''[0]'' (''Workout plan '' @ lq @ ''schedule'' @ rq @ '' must be string[].'')"
proof -
  have "assertWorkoutShape late_bad_schedule
     = Inl (''Workout plan '' @ lq @ ''schedule'' @ rq @ '' must be string[].'')"
    by (simp add: assertWorkoutShape_def late_bad_schedule_def not_string_array_def
        workout_error_def)
  moreover have "assertWorkoutShape early_bad_schedule
     = Inl (''Workout plan '' @ lq @ ''schedule'' @ rq @ '' must be string[].'')"
    by (simp add: assertWorkoutShape_def early_bad_schedule_def not_string_array_def
        workout_error_def)
  moreover have
    "\<not> sublist ''[1]'' (''Workout plan '' @ lq @ ''schedule'' @ rq @ '' must be string[].'')"
    by code_simp
  moreover have
    "\<not> sublist ''[0]'' (''Workout plan '' @ lq @ ''schedule'' @ rq @ '' must be string[].'')"
    by code_simp
  ultimately show ?thesis
    by blast
qed

section \<open>Properties of the workout normalizer\<close>

lemma toString_convertible:
  "(convertible v \<longrightarrow> (\<exists>s. toString nts v = Inr s))
   \<and> (\<not> convertible v \<longrightarrow> toString nts v = Inl TypeError)"
  "(list_all convertible xs \<longrightarrow> (\<exists>s. join_elements nts xs = Inr s))
   \<and> (\<not> list_all convertible xs \<longrightarrow> join_elements nts xs = Inl TypeError)"
proof (induction nts v and nts xs rule: toString_join_elements.induct)
  case (9 nts x xs)
  show ?case
  proof (cases "nullish x")
    case True
    then have "convertible x" by (auto simp: nullish_def)
    then show ?thesis
      using True 9(2) [of "[]"] by (auto split: sum.splits)
  next
    case False
    show ?thesis
    proof (cases "convertible x")
      case c: True
      then obtain s where s: "toString nts x = Inr s"
        using 9(1) [OF False] by blast
      show ?thesis
        using False c s 9(2) [of s] by (auto split: sum.splits)
    next
      case c: False
      then have "toString nts x = Inl TypeError"
        using 9(1) [OF False] by blast
      then show ?thesis
        using False c by simp
    qed
  qed
qed (simp_all)

lemma parseInt_convertible:
  "convertible x \<Longrightarrow> parseInt nts x = Inr (parsed nts x)"
  "\<not> convertible x \<Longrightarrow> parseInt nts x = Inl TypeError"
  using toString_convertible(1) [of x nts] by (auto simp: parseInt_def parsed_def)

lemma parseInt_returns: "parseInt nts x = Inr n \<Longrightarrow> parsed nts x = n"
  by (simp add: parsed_def)

lemma js_or_number:
  "js_or (Num n) (Num (Finite d)) = (if n = NaN \<or> n = Finite 0 then Num (Finite d) else Num n)"
  by (cases n) (simp_all add: js_or_def)

lemma number_or_parsed_number:
  "is_number x \<Longrightarrow> number_or_parsed nts x d = Inr x"
  by (simp add: number_or_parsed_def is_number_typeof)

lemma number_or_parsed_normalizable:
  "number_or_parsed nts x d
     = (if count_normalizable x then Inr (normalized nts d x) else Inl TypeError)"
proof (cases "is_number x")
  case True
  then show ?thesis
    by (simp add: number_or_parsed_number normalized_def count_normalizable_def)
next
  case False
  then show ?thesis
    by (cases "convertible x")
      (simp_all add: number_or_parsed_def is_number_typeof parseInt_convertible
        count_normalizable_def normalized_def js_or_number)
qed

lemma normalize_routine_normalizable:
  "normalize_routine nts r
     = (if routine_normalizable r then Inr (normalized_routine nts r) else Inl TypeError)"
  by (simp add: normalize_routine_def number_or_parsed_normalizable routine_normalizable_def
      normalized_routine_def)

lemma map_throw_total:
  assumes "\<And>x. x \<in> set xs \<Longrightarrow> f x = (if ok x then Inr (g x) else Inl TypeError)"
  shows "map_throw f xs = (if list_all ok xs then Inr (map g xs) else Inl TypeError)"
  using assms by (induction xs) auto

lemma normalize_exercise_normalizable:
  "normalize_exercise nts ex
     = (if exercise_normalizable ex then Inr (normalized_exercise nts ex) else Inl TypeError)"
proof (cases "get_prop ex ''routines''")
  case (Arr rs)
  have "map_throw (normalize_routine nts) rs
          = (if list_all routine_normalizable rs then Inr (map (normalized_routine nts) rs)
             else Inl TypeError)"
    by (rule map_throw_total) (simp add: normalize_routine_normalizable)
  then show ?thesis
    using Arr
    by (simp add: normalize_exercise_def array_map_def exercise_normalizable_def
        normalized_exercise_def)
qed (simp_all add: normalize_exercise_def array_map_def exercise_normalizable_def)

lemma validateWorkoutPlan_normalizable:
  "validateWorkoutPlan nts plan
     = (if plan_normalizable plan then Inr (normalized_plan nts plan) else Inl TypeError)"
proof (cases "get_prop plan ''exercises''")
  case (Arr exs)
  have "map_throw (normalize_exercise nts) exs
          = (if list_all exercise_normalizable exs then Inr (map (normalized_exercise nts) exs)
             else Inl TypeError)"
    by (rule map_throw_total) (simp add: normalize_exercise_normalizable)
  then show ?thesis
    using Arr
    by (simp add: validateWorkoutPlan_def array_map_def plan_normalizable_def
        normalized_plan_def)
qed (simp_all add: validateWorkoutPlan_def array_map_def plan_normalizable_def)

lemma parseInt_string_examples:
  "parseInt_string ''3'' = Finite 3" "parseInt_string ''abc'' = NaN"
  by code_simp+

lemma normalized_examples:
  "normalized nts 1 (Str ''3'') = Num (Finite 3)"
  "normalized nts 1 (Str ''abc'') = Num (Finite 1)"
  "normalized nts 10 (Str ''abc'') = Num (Finite 10)"
  by (simp_all add: normalized_def parsed_def parseInt_def parseInt_string_examples)

text \<open>
  Claim C4, as amended. For every routine that is neither \<^verbatim>\<open>null\<close> nor \<^verbatim>\<open>undefined\<close> and
  whose \<^verbatim>\<open>sets\<close> and \<^verbatim>\<open>reps\<close> are numbers or have a string, the normalizer keeps the
  name, keeps \<^verbatim>\<open>sets\<close> and \<^verbatim>\<open>reps\<close> when they are numbers, and otherwise parses the value as
  an integer, with the fallback 1 for \<^verbatim>\<open>sets\<close> and 10 for \<^verbatim>\<open>reps\<close> when the parse gives
  \<^verbatim>\<open>NaN\<close> or zero: \<^verbatim>\<open>"3"\<close> gives 3, \<^verbatim>\<open>"abc"\<close> gives 1 for \<^verbatim>\<open>sets\<close> and 10 for
  \<^verbatim>\<open>reps\<close>. A plan of such routines is normalized routine by routine, and whenever the
  normalizer returns, the schedule is the input's.
\<close>

theorem workout_normalizer:
  "(routine_normalizable r \<longrightarrow> normalize_routine nts r = Inr (normalized_routine nts r))
   \<and> (is_number x \<longrightarrow> normalized nts d x = x)
   \<and> (\<not> is_number x \<and> parseInt nts x = Inr n \<longrightarrow>
        normalized nts d x = (if n = NaN \<or> n = Finite 0 then Num (Finite d) else Num n))
   \<and> normalized nts 1 (Str ''3'') = Num (Finite 3)
   \<and> normalized nts 1 (Str ''abc'') = Num (Finite 1)
   \<and> normalized nts 10 (Str ''abc'') = Num (Finite 10)
   \<and> (plan_normalizable plan \<longrightarrow>
        validateWorkoutPlan nts plan = Inr (normalized_plan nts plan))
   \<and> (validateWorkoutPlan nts plan = Inr out \<longrightarrow>
        out = normalized_plan nts plan
        \<and> get_prop out ''schedule'' = get_prop plan ''schedule'')"
proof (intro conjI impI)
  assume "routine_normalizable r"
  then show "normalize_routine nts r = Inr (normalized_routine nts r)"
    by (simp add: normalize_routine_normalizable)
next
  assume "is_number x"
  then show "normalized nts d x = x"
    by (simp add: normalized_def)
next
  assume "\<not> is_number x \<and> parseInt nts x = Inr n"
  then show "normalized nts d x = (if n = NaN \<or> n = Finite 0 then Num (Finite d) else Num n)"
    by (simp add: normalized_def parseInt_returns)
next
  assume "plan_normalizable plan"
  then show "validateWorkoutPlan nts plan = Inr (normalized_plan nts plan)"
    by (simp add: validateWorkoutPlan_normalizable)
next
  assume r: "validateWorkoutPlan nts plan = Inr out"
  then show "out = normalized_plan nts plan"
    by (simp add: validateWorkoutPlan_normalizable split: if_splits)
  then show "get_prop out ''schedule'' = get_prop plan ''schedule''"
    by (simp add: normalized_plan_def)
qed (rule normalized_examples)+

theorem workout_normalizer_witness:
  "normalize_routine any_number_string textual_routine
     = Inr (Obj [(''name'', Str ''Squat''), (''sets'', Num (Finite 3)), (''reps'', Num (Finite 10))])
   \<and> validateWorkoutPlan any_number_string textual_plan
     = Inr (Obj [(''schedule'', Arr [Str ''Monday'']),
                 (''exercises'', Arr [Obj [(''day'', Str ''Monday''),
                    (''routines'', Arr [Obj [(''name'', Str ''Squat''), (''sets'', Num (Finite 3)),
                                             (''reps'', Num (Finite 10))],
                                        good_routine])]])])"
proof -
  have r: "routine_normalizable textual_routine" "routine_normalizable good_routine"
    by (simp_all add: routine_normalizable_def textual_routine_def good_routine_def
        count_normalizable_def nullish_def)
  then have p: "plan_normalizable textual_plan"
    by (simp add: plan_normalizable_def textual_plan_def exercise_normalizable_def nullish_def)
  have n1: "normalized_routine any_number_string textual_routine
             = Obj [(''name'', Str ''Squat''), (''sets'', Num (Finite 3)), (''reps'', Num (Finite 10))]"
    by (simp add: normalized_routine_def textual_routine_def normalized_examples)
  have n2: "normalized_routine any_number_string good_routine = good_routine"
    by (simp add: normalized_routine_def good_routine_def normalized_def)
  note n = n1 n2
  have "normalized_plan any_number_string textual_plan
          = Obj [(''schedule'', Arr [Str ''Monday'']),
                 (''exercises'', Arr [Obj [(''day'', Str ''Monday''),
                    (''routines'', Arr [Obj [(''name'', Str ''Squat''), (''sets'', Num (Finite 3)),
                                             (''reps'', Num (Finite 10))],
                                        good_routine])]])]"
    by (simp add: normalized_plan_def textual_plan_def normalized_exercise_def n)
  then show ?thesis
    using workout_normalizer [of textual_routine any_number_string "Str ''3''" 1 NaN textual_plan
        "Obj []"] r(1) p n(1)
    by simp
qed

text \<open>
  Claim C4 as stated fails for a routine whose \<^verbatim>\<open>sets\<close> is an object with an own property
  \<^verbatim>\<open>toString\<close>: it is no number, its conversion to a string throws, and the normalizer
  throws instead of taking the fallback.
\<close>

theorem workout_normalizer_counterexample:
  "normalize_routine any_number_string unconvertible_routine = Inl TypeError
   \<and> validateWorkoutPlan any_number_string unconvertible_plan = Inl TypeError
   \<and> typeof unconvertible_routine = TObject
   \<and> typeof (get_prop unconvertible_routine ''sets'') \<noteq> TNumber"
proof -
  have r: "\<not> routine_normalizable unconvertible_routine"
    by (simp add: routine_normalizable_def unconvertible_routine_def count_normalizable_def)
  then have "\<not> plan_normalizable unconvertible_plan"
    by (simp add: plan_normalizable_def unconvertible_plan_def exercise_normalizable_def)
  then show ?thesis
    using r
    by (simp add: normalize_routine_normalizable validateWorkoutPlan_normalizable)
      (simp add: unconvertible_routine_def)
qed

section \<open>Properties of the generation handler\<close>

lemma save_plan_cases:
  assumes "save_plan env p w dt d = (resp, d', tr)"
  shows "(\<exists>args. tr = [GenerateContent Workout, GenerateContent Diet, RunCreatePlan args])
         \<and> (d' \<noteq> d \<longrightarrow> status resp = 200)"
  using assms
  by (auto simp: save_plan_def Let_def split: option.splits prod.splits)

lemma diet_stage_cases:
  assumes "diet_stage env p w d = (resp, d', tr)"
  shows "(diet_validated env
          \<and> (\<exists>dt. validateDietPlan (case diet_reply env of Some r \<Rightarrow> r | None \<Rightarrow> Null) = Inr dt
                \<and> save_plan env p w dt d = (resp, d', tr)))
         \<or> (\<not> list_ex is_createPlan tr \<and> d' = d \<and> status resp = 500 \<and> is_failure (body resp)
             \<and> tr = [GenerateContent Workout, GenerateContent Diet])"
proof (cases "diet_reply env")
  case None
  then show ?thesis
    using assms by (auto simp: diet_stage_def)
next
  case (Some r)
  show ?thesis
  proof (cases "assertDietShape r")
    case (Inl e)
    then show ?thesis
      using assms Some by (auto simp: diet_stage_def)
  next
    case (Inr v)
    then have v: "v = r"
      by (auto simp: assertDietShape_def split: if_splits option.splits)
    show ?thesis
      using assms Some Inr v
      by (cases "validateDietPlan r") (auto simp: diet_stage_def diet_validated_def)
  qed
qed

lemma workout_stage_cases:
  assumes "workout_stage env p d = (resp, d', tr)"
  shows "(workout_validated env \<and> (\<exists>w. diet_stage env p w d = (resp, d', tr)))
         \<or> (\<not> list_ex is_createPlan tr \<and> d' = d \<and> status resp = 500 \<and> is_failure (body resp)
             \<and> tr = [GenerateContent Workout])"
proof (cases "workout_reply env")
  case None
  then show ?thesis
    using assms by (auto simp: workout_stage_def)
next
  case (Some r)
  show ?thesis
  proof (cases "assertWorkoutShape r")
    case (Inl e)
    then show ?thesis
      using assms Some by (auto simp: workout_stage_def)
  next
    case (Inr v)
    show ?thesis
      using assms Some Inr
      by (cases "validateWorkoutPlan (number_to_string env) v")
        (auto simp: workout_stage_def workout_validated_def)
  qed
qed

lemma generate_program_cases:
  assumes "generate_program env req d = (resp, d', tr)"
  shows "(\<exists>p. workout_stage env p d = (resp, d', tr))
         \<or> (tr = [] \<and> d' = d \<and> (status resp = 400 \<or> status resp = 500)
             \<and> is_failure (body resp))"
  using assms
  by (auto simp: generate_program_def split: sum.splits)

text \<open>
  Claim C3. In every run of the handler, \<^verbatim>\<open>createPlan\<close> is called only when the workout
  plan and the diet plan have both passed shape validation, and then last, after the two
  calls of the model. When the model's call, the parse or the shape validation fails for one
  of the plans, the response reports a failure, \<^verbatim>\<open>createPlan\<close> is not called and the
  database is as before. The database changes only in a run that calls \<^verbatim>\<open>createPlan\<close>
  and responds with status 200.
\<close>

theorem createPlan_after_both_validations:
  assumes "generate_program env req d = (resp, d', tr)"
  shows "(list_ex is_createPlan tr \<longrightarrow>
            workout_validated env \<and> diet_validated env
            \<and> (\<exists>args. tr = [GenerateContent Workout, GenerateContent Diet, RunCreatePlan args]))
         \<and> (\<not> workout_validated env \<or> \<not> diet_validated env \<longrightarrow>
              \<not> list_ex is_createPlan tr \<and> d' = d \<and> status resp \<noteq> 200
              \<and> is_failure (body resp))
         \<and> (d' \<noteq> d \<longrightarrow> list_ex is_createPlan tr \<and> status resp = 200)"
proof -
  let ?goal = "(list_ex is_createPlan tr \<longrightarrow>
            workout_validated env \<and> diet_validated env
            \<and> (\<exists>args. tr = [GenerateContent Workout, GenerateContent Diet, RunCreatePlan args]))
         \<and> (\<not> workout_validated env \<or> \<not> diet_validated env \<longrightarrow>
              \<not> list_ex is_createPlan tr \<and> d' = d \<and> status resp \<noteq> 200
              \<and> is_failure (body resp))
         \<and> (d' \<noteq> d \<longrightarrow> list_ex is_createPlan tr \<and> status resp = 200)"
  from generate_program_cases [OF assms] show ?goal
  proof
    assume "tr = [] \<and> d' = d \<and> (status resp = 400 \<or> status resp = 500)
             \<and> is_failure (body resp)"
    then show ?goal by auto
  next
    assume "\<exists>p. workout_stage env p d = (resp, d', tr)"
    then obtain p where "workout_stage env p d = (resp, d', tr)" ..
    from workout_stage_cases [OF this] show ?goal
    proof
      assume "\<not> list_ex is_createPlan tr \<and> d' = d \<and> status resp = 500
               \<and> is_failure (body resp) \<and> tr = [GenerateContent Workout]"
      then show ?goal by auto
    next
      assume "workout_validated env \<and> (\<exists>w. diet_stage env p w d = (resp, d', tr))"
      then obtain w where wv: "workout_validated env"
        and "diet_stage env p w d = (resp, d', tr)"
        by blast
      from diet_stage_cases [OF this(2)] show ?goal
      proof
        assume "\<not> list_ex is_createPlan tr \<and> d' = d \<and> status resp = 500
                 \<and> is_failure (body resp)
                 \<and> tr = [GenerateContent Workout, GenerateContent Diet]"
        then show ?goal by auto
      next
        assume "diet_validated env
          \<and> (\<exists>dt. validateDietPlan (case diet_reply env of Some r \<Rightarrow> r | None \<Rightarrow> Null) = Inr dt
                \<and> save_plan env p w dt d = (resp, d', tr))"
        then obtain dt where dv: "diet_validated env"
          and "save_plan env p w dt d = (resp, d', tr)"
          by blast
        from save_plan_cases [OF this(2)] wv dv show ?goal
          by auto
      qed
    qed
  qed
qed

lemma good_workout_checked: "assertWorkoutShape good_workout = Inr good_workout"
proof -
  have "routine_ok good_routine"
    by (simp add: routine_ok_def good_routine_def number_ok_def)
  then have "exercise_ok good_exercise"
    by (simp add: exercise_ok_def good_exercise_def)
  then have "workout_ok good_workout"
    by (simp add: workout_ok_def good_workout_def)
  then show ?thesis
    by (simp add: assertWorkoutShape_ok)
qed

lemma good_workout_normalized:
  "validateWorkoutPlan nts good_workout = Inr good_workout"
proof -
  have r: "routine_normalizable good_routine"
    by (simp add: routine_normalizable_def good_routine_def count_normalizable_def nullish_def)
  then have e: "exercise_normalizable good_exercise"
    by (simp add: exercise_normalizable_def good_exercise_def nullish_def)
  then have "plan_normalizable good_workout"
    by (simp add: plan_normalizable_def good_workout_def nullish_def)
  moreover have "normalized_routine nts good_routine = good_routine"
    by (simp add: normalized_routine_def good_routine_def normalized_def)
  then have "normalized_exercise nts good_exercise = good_exercise"
    by (simp add: normalized_exercise_def good_exercise_def)
  then have "normalized_plan nts good_workout = good_workout"
    by (simp add: normalized_plan_def good_workout_def)
  ultimately show ?thesis
    by (simp add: validateWorkoutPlan_normalizable)
qed

lemma good_diet_checked: "assertDietShape good_diet = Inr good_diet"
  by (simp add: assertDietShape_def good_diet_def not_string_array_def)

lemma good_diet_normalized: "validateDietPlan good_diet = Inr good_diet"
  by (simp add: validateDietPlan_def good_diet_def array_map_def normalize_meal_def nullish_def)

lemma good_plans_valid:
  "validate workoutPlan_validator good_workout" "validate dietPlan_validator good_diet"
  by (simp_all add: workoutPlan_validator_def dietPlan_validator_def good_workout_def
      good_exercise_def good_routine_def good_diet_def)

lemma valid_request_unwrapped: "unwrap_and_validate valid_request = Inr valid_payload"
  using unwrap_and_validate_wrapped(2) [of valid_request] valid_request_payload
  by (simp add: valid_request_def)

lemma good_run:
  "generate_program good_env (Inr valid_request) empty_db
     = (\<lparr>status = 200, body = Success 0 good_workout good_diet\<rparr>,
        \<lparr>plans = [document good_args 0], clock = 1\<rparr>,
        [GenerateContent Workout, GenerateContent Diet, RunCreatePlan good_args])"
proof -
  have "save_plan good_env valid_payload good_workout good_diet empty_db
     = (\<lparr>status = 200, body = Success 0 good_workout good_diet\<rparr>,
        \<lparr>plans = [document good_args 0], clock = 1\<rparr>,
        [GenerateContent Workout, GenerateContent Diet, RunCreatePlan good_args])"
    by (simp add: save_plan_def runMutation_createPlan_def good_env_def valid_payload_def
        args_valid_def good_plans_valid createPlan_result empty_db_def good_args_def Let_def)
  then have "diet_stage good_env valid_payload good_workout empty_db
     = (\<lparr>status = 200, body = Success 0 good_workout good_diet\<rparr>,
        \<lparr>plans = [document good_args 0], clock = 1\<rparr>,
        [GenerateContent Workout, GenerateContent Diet, RunCreatePlan good_args])"
    by (simp add: diet_stage_def good_diet_checked good_diet_normalized good_env_def)
  then have "workout_stage good_env valid_payload empty_db
     = (\<lparr>status = 200, body = Success 0 good_workout good_diet\<rparr>,
        \<lparr>plans = [document good_args 0], clock = 1\<rparr>,
        [GenerateContent Workout, GenerateContent Diet, RunCreatePlan good_args])"
    by (simp add: workout_stage_def good_workout_checked good_workout_normalized good_env_def)
  then show ?thesis
    by (simp add: generate_program_def valid_request_unwrapped)
qed

lemma no_diet_run:
  "generate_program no_diet_env (Inr valid_request) empty_db
     = (\<lparr>status = 500, body = Failure ''Failed to generate a valid diet plan from AI.''\<rparr>,
        empty_db, [GenerateContent Workout, GenerateContent Diet])"
proof -
  have "diet_stage no_diet_env valid_payload good_workout empty_db
     = (\<lparr>status = 500, body = Failure ''Failed to generate a valid diet plan from AI.''\<rparr>,
        empty_db, [GenerateContent Workout, GenerateContent Diet])"
    by (simp add: diet_stage_def no_diet_env_def)
  then have "workout_stage no_diet_env valid_payload empty_db
     = (\<lparr>status = 500, body = Failure ''Failed to generate a valid diet plan from AI.''\<rparr>,
        empty_db, [GenerateContent Workout, GenerateContent Diet])"
    by (simp add: workout_stage_def good_workout_checked good_workout_normalized no_diet_env_def)
  then show ?thesis
    by (simp add: generate_program_def valid_request_unwrapped)
qed

theorem createPlan_after_both_validations_witness:
  "workout_validated good_env \<and> diet_validated good_env
   \<and> generate_program good_env (Inr valid_request) empty_db
       = (\<lparr>status = 200, body = Success 0 good_workout good_diet\<rparr>,
          \<lparr>plans = [document good_args 0], clock = 1\<rparr>,
          [GenerateContent Workout, GenerateContent Diet, RunCreatePlan good_args])
   \<and> \<not> diet_validated no_diet_env
   \<and> generate_program no_diet_env (Inr valid_request) empty_db
       = (\<lparr>status = 500, body = Failure ''Failed to generate a valid diet plan from AI.''\<rparr>,
          empty_db, [GenerateContent Workout, GenerateContent Diet])"
proof -
  have "list_ex is_createPlan
          [GenerateContent Workout, GenerateContent Diet, RunCreatePlan good_args]"
    by simp
  then have "workout_validated good_env \<and> diet_validated good_env"
    using createPlan_after_both_validations [OF good_run] by blast
  moreover have "\<not> diet_validated no_diet_env"
    by (simp add: diet_validated_def no_diet_env_def)
  ultimately show ?thesis
    using good_run no_diet_run createPlan_after_both_validations [OF no_diet_run] by blast
qed

end
